theory Spec2Isabelle
  imports Main "HOL-Library.Sublist" "HOL-Library.Char_ord" "HOL-Library.List_Lexorder"
begin

section \<open>Records of the document store\<close>

text \<open>
  The three collections of the managed document database (\<open>users\<close>, \<open>documents\<close>,
  \<open>clinics\<close>) hold objects whose shape the pages fix by the fields they write and read.
  Each shape is a record; a field that a page may leave out or set to \<open>null\<close> is an
  option. Timestamps assigned by the server are natural numbers. Field names are those of
  the source, prefixed where two shapes share a name.
\<close>

record image_ref =
  url :: string
  display_url :: string
  thumb_url :: string
  medium_url :: string
  delete_url :: string
  image_id :: string
  uploadedAt :: string
  filename :: string

record account =
  acc_id :: string
  username :: string
  email :: string
  role :: string
  status :: string
  rejectionReason :: "string option"
  rejectedAt :: "nat option"
  createdBy :: string
  createdAt :: nat
  images :: "image_ref list"

record assigned_user =
  au_id :: string
  au_username :: string
  au_email :: string

record document =
  doc_id :: string
  documentName :: string
  assignedUsers :: "assigned_user list"
  doc_createdBy :: string
  doc_createdAt :: nat

record clinic =
  clinic_id :: string
  clinicName :: string
  doctorName :: string
  clinicMail :: string
  clinicNumber :: string
  establishmentDate :: string
  location :: string
  panchakrma :: string
  numberOfPatients :: string
  revenue :: string
  clinic_createdBy :: string
  clinic_createdAt :: nat
  clinic_updatedAt :: "nat option"

text \<open>
  A failed call of the store client rejects with an error object; the pages read its
  \<open>code\<close> and \<open>message\<close>.
\<close>

record store_error =
  err_code :: string
  err_message :: string

text \<open>
  The database as the pages see it: the three collections in the order a query lists
  them, which is the order of the document identifiers, and \<open>fault\<close>, the error
  with which every call is rejected while the store cannot be reached or refuses the
  caller.
\<close>

record firestore =
  users :: "account list"
  documents :: "document list"
  clinics :: "clinic list"
  fault :: "store_error option"

text \<open>A transient notice: \<open>toast({title, description, variant})\<close>.\<close>

record toast =
  title :: string
  description :: string
  destructive :: bool

section \<open>String operations of the host language\<close>

text \<open>\<open>Array.prototype.join\<close> on an array of strings.\<close>

fun join :: "string \<Rightarrow> string list \<Rightarrow> string" where
  "join sep [] = []"
| "join sep [x] = x"
| "join sep (x # y # ys) = x @ sep @ join sep (y # ys)"

text \<open>
  White space as \<open>String.prototype.trim\<close> and the class \<open>\s\<close> of regular
  expressions know it, among the characters a \<open>char\<close> can hold: tab, line feed,
  vertical tab, form feed, carriage return, space and the no-break space.
\<close>

definition isSpace :: "char \<Rightarrow> bool" where
  "isSpace c = (of_char c \<in> {9, 10, 11, 12, 13, 32, 160 :: nat})"

definition trim :: "string \<Rightarrow> string" where
  "trim s = rev (dropWhile isSpace (rev (dropWhile isSpace s)))"

text \<open>\<open>String.prototype.startsWith\<close>.\<close>

definition startsWith :: "string \<Rightarrow> string \<Rightarrow> bool" where
  "startsWith s p = prefix p s"

section \<open>CSV export of a document\<close>

text \<open>
  \<open>handleDownload\<close> of the portal dashboard (the document page has the same body
  and adds a notice, see below): the header row and one row per assigned user, each row
  joined with a comma, the rows joined with a line feed. The file is offered under the
  document's name with the extension \<open>.csv\<close>.
\<close>

definition csvContent :: "document \<Rightarrow> string" where
  "csvContent d =
     (let headers = [''Username'', ''Email''];
          rows = map (\<lambda>u. [au_username u, au_email u]) (assignedUsers d)
      in join [CHR 0x0A] (join '','' headers # map (\<lambda>row. join '','' row) rows))"

record download =
  dl_name :: string
  dl_content :: string

definition handleDownload :: "document \<Rightarrow> download" where
  "handleDownload d = \<lparr>dl_name = documentName d @ ''.csv'', dl_content = csvContent d\<rparr>"

definition bob_amy :: document where
  "bob_amy = \<lparr>doc_id = ''d1'', documentName = ''Roster'',
     assignedUsers = [\<lparr>au_id = ''u1'', au_username = ''Bob'', au_email = ''b@x.com''\<rparr>,
                      \<lparr>au_id = ''u2'', au_username = ''Amy'', au_email = ''a@y.com''\<rparr>],
     doc_createdBy = ''admin@x.com'', doc_createdAt = 0\<rparr>"

section \<open>The store client\<close>

text \<open>
  \<open>where(field, '==', v)\<close> is an equality constraint on one field;
  \<open>getDocs(query(collection, constraints...))\<close> rejects with the store's fault or
  lists, in the collection's order, the records that meet every constraint.
\<close>

definition whereEq :: "('r \<Rightarrow> 'v) \<Rightarrow> 'v \<Rightarrow> 'r \<Rightarrow> bool" where
  "whereEq field v r = (field r = v)"

definition getDocs :: "firestore \<Rightarrow> 'r list \<Rightarrow> ('r \<Rightarrow> bool) list \<Rightarrow> store_error + 'r list" where
  "getDocs db coll constraints =
     (case fault db of
        Some e \<Rightarrow> Inl e
      | None \<Rightarrow> Inr (filter (\<lambda>r. list_all (\<lambda>c. c r) constraints) coll))"

text \<open>
  \<open>updateDoc(doc(db, 'users', id), patch)\<close> rejects with the store's fault, or with
  \<open>not-found\<close> when no record has the id, and otherwise applies the patch to the record
  with that id.
\<close>

definition not_found :: store_error where
  "not_found = \<lparr>err_code = ''not-found'', err_message = ''No document to update''\<rparr>"

definition updateDoc :: "firestore \<Rightarrow> string \<Rightarrow> (account \<Rightarrow> account) \<Rightarrow> store_error + firestore" where
  "updateDoc db uid patch =
     (case fault db of
        Some e \<Rightarrow> Inl e
      | None \<Rightarrow>
          if list_ex (\<lambda>a. acc_id a = uid) (users db)
          then Inr (db\<lparr>users := map (\<lambda>a. if acc_id a = uid then patch a else a) (users db)\<rparr>)
          else Inl not_found)"

text \<open>
  \<open>arrayRemove(x)\<close> takes every element equal to \<open>x\<close> out of the array field;
  \<open>arrayUnion(x)\<close> appends \<open>x\<close> unless the array already holds an equal element.
  Elements are compared field by field.
\<close>

definition arrayRemove :: "'a \<Rightarrow> 'a list \<Rightarrow> 'a list" where
  "arrayRemove x xs = filter (\<lambda>y. y \<noteq> x) xs"

definition arrayUnion :: "'a \<Rightarrow> 'a list \<Rightarrow> 'a list" where
  "arrayUnion x xs = (if x \<in> set xs then xs else xs @ [x])"

text \<open>
  The signed-in administrator as the pages read it: the value of \<open>user?.email\<close>,
  \<open>None\<close> when there is no user or the user has no email. \<open>hasEmail\<close> is the
  truthiness test of \<open>!user?.email\<close>.
\<close>

type_synonym auth = "string option"

definition hasEmail :: "auth \<Rightarrow> bool" where
  "hasEmail user = (case user of None \<Rightarrow> False | Some e \<Rightarrow> e \<noteq> [])"

definition errorToast :: "string \<Rightarrow> toast" where
  "errorToast d = \<lparr>title = ''Error'', description = d, destructive = True\<rparr>"

definition warningToast :: "string \<Rightarrow> toast" where
  "warningToast d = \<lparr>title = ''Warning'', description = d, destructive = True\<rparr>"

definition successToast :: "string \<Rightarrow> toast" where
  "successToast d = \<lparr>title = ''Success'', description = d, destructive = False\<rparr>"

section \<open>User management page\<close>

record user_management =
  um_users :: "account list"
  um_loading :: bool
  um_selectedUsers :: "string list"
  um_bulkAction :: string
  um_rejectionReason :: string
  um_submitting :: bool
  um_toasts :: "toast list"

definition fetchUsers :: "auth \<Rightarrow> firestore \<Rightarrow> user_management \<Rightarrow> user_management" where
  "fetchUsers user db s =
     (if \<not> hasEmail user then s
      else case getDocs db (users db) [whereEq createdBy (the user)] of
             Inr usersData \<Rightarrow> s\<lparr>um_users := usersData, um_loading := False\<rparr>
           | Inl error \<Rightarrow>
               s\<lparr>um_toasts := um_toasts s @ [errorToast ''Failed to load users.''],
                 um_loading := False\<rparr>)"

text \<open>The decimal numeral of a count, as a template literal prints it.\<close>

function numToString :: "nat \<Rightarrow> string" where
  "numToString n =
     (if n < 10 then [char_of (48 + n)]
      else numToString (n div 10) @ [char_of (48 + n mod 10)])"
  by pat_completeness auto
termination
  by (relation "measure id") auto

text \<open>The patch that \<open>handleBulkUpdate\<close> builds for each selected account.\<close>

definition updateData :: "string \<Rightarrow> string \<Rightarrow> nat \<Rightarrow> account \<Rightarrow> account" where
  "updateData bulkAction reason serverTimestamp a =
     (if bulkAction = ''rejected''
      then a\<lparr>status := bulkAction, rejectionReason := Some reason,
             rejectedAt := Some serverTimestamp\<rparr>
      else a\<lparr>status := bulkAction, rejectionReason := None, rejectedAt := None\<rparr>)"

text \<open>
  \<open>Promise.all\<close> over one \<open>updateDoc\<close> per selected id: every update is sent,
  those that succeed are committed whatever happens to the others, and the whole is
  rejected with the first rejection if there is one.
\<close>

fun updateAll :: "firestore \<Rightarrow> string list \<Rightarrow> (account \<Rightarrow> account) \<Rightarrow> firestore \<times> store_error option" where
  "updateAll db [] patch = (db, None)"
| "updateAll db (uid # uids) patch =
     (case updateDoc db uid patch of
        Inl e \<Rightarrow> (fst (updateAll db uids patch), Some e)
      | Inr db1 \<Rightarrow> updateAll db1 uids patch)"

definition handleBulkUpdate ::
    "auth \<Rightarrow> nat \<Rightarrow> user_management \<Rightarrow> firestore \<Rightarrow> user_management \<times> firestore" where
  "handleBulkUpdate user serverTimestamp s db =
     (if um_bulkAction s = [] then
        (s\<lparr>um_toasts := um_toasts s @ [warningToast ''Please select an action.'']\<rparr>, db)
      else if length (um_selectedUsers s) = 0 then
        (s\<lparr>um_toasts := um_toasts s @ [warningToast ''Please select at least one user.'']\<rparr>, db)
      else if um_bulkAction s = ''rejected'' \<and> trim (um_rejectionReason s) = [] then
        (s\<lparr>um_toasts := um_toasts s @
              [warningToast ''Please provide a reason for rejection.'']\<rparr>, db)
      else
        (case updateAll db (um_selectedUsers s)
                (updateData (um_bulkAction s) (um_rejectionReason s) serverTimestamp) of
           (db', None) \<Rightarrow>
             (let s1 = s\<lparr>um_toasts := um_toasts s @
                          [successToast (numToString (length (um_selectedUsers s)) @
                             '' user(s) updated successfully!'')]\<rparr>;
                  s2 = fetchUsers user db' s1
              in (s2\<lparr>um_selectedUsers := [], um_bulkAction := [], um_rejectionReason := [],
                     um_submitting := False\<rparr>, db'))
         | (db', Some error) \<Rightarrow>
             (s\<lparr>um_toasts := um_toasts s @ [errorToast ''Failed to update users.''],
                um_submitting := False\<rparr>, db')))"

section \<open>Document management page\<close>

record user_option =
  opt_value :: string
  opt_label :: string
  opt_email :: string
  opt_username :: string

record document_management =
  dm_documentName :: string
  dm_selectedUsers :: "user_option list"
  dm_approvedUsers :: "user_option list"
  dm_documents :: "document list"
  dm_loading :: bool
  dm_submitting :: bool
  dm_toasts :: "toast list"

definition fetchApprovedUsers :: "auth \<Rightarrow> firestore \<Rightarrow> document_management \<Rightarrow> document_management" where
  "fetchApprovedUsers user db s =
     (if \<not> hasEmail user then s
      else case getDocs db (users db)
                  [whereEq createdBy (the user), whereEq status ''approved''] of
             Inr docs \<Rightarrow>
               s\<lparr>dm_approvedUsers :=
                    map (\<lambda>d. \<lparr>opt_value = acc_id d,
                              opt_label = username d @ '' ('' @ email d @ '')'',
                              opt_email = email d, opt_username = username d\<rparr>) docs\<rparr>
           | Inl error \<Rightarrow>
               s\<lparr>dm_toasts := dm_toasts s @ [errorToast ''Failed to load approved users.'']\<rparr>)"

definition fetchDocuments :: "auth \<Rightarrow> firestore \<Rightarrow> document_management \<Rightarrow> document_management" where
  "fetchDocuments user db s =
     (if \<not> hasEmail user then s
      else case getDocs db (documents db) [whereEq doc_createdBy (the user)] of
             Inr docs \<Rightarrow> s\<lparr>dm_documents := docs, dm_loading := False\<rparr>
           | Inl error \<Rightarrow>
               (let s1 = (if err_code error \<noteq> ''permission-denied''
                          then s\<lparr>dm_toasts := dm_toasts s @
                                   [errorToast ''Failed to load documents.'']\<rparr>
                          else s)
                in s1\<lparr>dm_documents := [], dm_loading := False\<rparr>))"

text \<open>
  \<open>handleDownload\<close> of the document page: the same file as on the portal dashboard,
  and a notice.
\<close>

definition dm_handleDownload ::
    "document \<Rightarrow> document_management \<Rightarrow> download \<times> document_management" where
  "dm_handleDownload d s =
     (handleDownload d,
      s\<lparr>dm_toasts := dm_toasts s @ [successToast ''CSV downloaded successfully!'']\<rparr>)"

section \<open>Clinic management page\<close>

record clinic_management =
  cm_clinics :: "clinic list"
  cm_loading :: bool
  cm_submitting :: bool
  cm_toasts :: "toast list"

definition fetchClinics :: "auth \<Rightarrow> firestore \<Rightarrow> clinic_management \<Rightarrow> clinic_management" where
  "fetchClinics user db s =
     (if \<not> hasEmail user then s
      else case getDocs db (clinics db) [whereEq clinic_createdBy (the user)] of
             Inr clinicsData \<Rightarrow> s\<lparr>cm_clinics := clinicsData, cm_loading := False\<rparr>
           | Inl error \<Rightarrow>
               s\<lparr>cm_toasts := cm_toasts s @ [errorToast ''Failed to load clinics.''],
                 cm_loading := False\<rparr>)"

section \<open>Admin dashboard: the Add New User form and the statistics\<close>

record form_data =
  fd_username :: string
  fd_email :: string
  fd_role :: string
  fd_status :: string

record stats =
  totalUsers :: nat
  pendingApprovals :: nat
  rejectedUsers :: nat
  totalDocuments :: nat

record dashboard =
  formData :: form_data
  da_stats :: stats
  da_submitting :: bool
  da_toasts :: "toast list"

text \<open>
  \<open>handleInputChange\<close> and \<open>handleSelectChange\<close> both store \<open>value\<close> under the
  key \<open>name\<close> of the form object; the form has the four keys below.
\<close>

definition setField :: "string \<Rightarrow> string \<Rightarrow> form_data \<Rightarrow> form_data" where
  "setField name v fd =
     (if name = ''username'' then fd\<lparr>fd_username := v\<rparr>
      else if name = ''email'' then fd\<lparr>fd_email := v\<rparr>
      else if name = ''role'' then fd\<lparr>fd_role := v\<rparr>
      else if name = ''status'' then fd\<lparr>fd_status := v\<rparr>
      else fd)"

definition handleInputChange :: "string \<Rightarrow> string \<Rightarrow> dashboard \<Rightarrow> dashboard" where
  "handleInputChange name v s = s\<lparr>formData := setField name v (formData s)\<rparr>"

definition handleSelectChange :: "string \<Rightarrow> string \<Rightarrow> dashboard \<Rightarrow> dashboard" where
  "handleSelectChange name v s = s\<lparr>formData := setField name v (formData s)\<rparr>"

definition emptyForm :: form_data where
  "emptyForm = \<lparr>fd_username = [], fd_email = [], fd_role = [], fd_status = []\<rparr>"

definition handleCancel :: "dashboard \<Rightarrow> dashboard" where
  "handleCancel s = s\<lparr>formData := emptyForm\<rparr>"

text \<open>
  \<open>addDoc(collection(db, 'users'), data)\<close>: the store rejects with its fault or keeps
  the record under the identifier it generates; queries list it where that identifier
  falls among the others, which may be before records that were there already.
\<close>

definition addDoc :: "firestore \<Rightarrow> account \<Rightarrow> store_error + firestore" where
  "addDoc db a =
     (case fault db of Some e \<Rightarrow> Inl e | None \<Rightarrow> Inr (db\<lparr>users := insort_key acc_id a (users db)\<rparr>))"

text \<open>
  The object that \<open>handleSubmit\<close> of the dashboard passes to \<open>addDoc\<close>: the form's
  four fields, the server's timestamp, and \<open>user?.email || 'unknown'\<close>.
\<close>

definition newAccount :: "auth \<Rightarrow> string \<Rightarrow> nat \<Rightarrow> form_data \<Rightarrow> account" where
  "newAccount user newId serverTimestamp fd =
     \<lparr>acc_id = newId, username = fd_username fd, email = fd_email fd, role = fd_role fd,
      status = fd_status fd, rejectionReason = None, rejectedAt = None,
      createdBy = (if hasEmail user then the user else ''unknown''),
      createdAt = serverTimestamp, images = []\<rparr>"

definition dashboard_handleSubmit ::
    "auth \<Rightarrow> string \<Rightarrow> nat \<Rightarrow> dashboard \<Rightarrow> firestore \<Rightarrow> dashboard \<times> firestore" where
  "dashboard_handleSubmit user newId serverTimestamp s db =
     (case addDoc db (newAccount user newId serverTimestamp (formData s)) of
        Inr db' \<Rightarrow>
          ((handleCancel (s\<lparr>da_toasts := da_toasts s @ [successToast ''User added successfully!'']\<rparr>))
             \<lparr>da_submitting := False\<rparr>, db')
      | Inl error \<Rightarrow>
          (s\<lparr>da_toasts := da_toasts s @ [errorToast ''Failed to add user. Please try again.''],
             da_submitting := False\<rparr>, db))"

text \<open>
  What the rendered form can do to the form object: type into the two inputs, pick one
  of the items of the role select or of the status select, or press Cancel.
\<close>

datatype role_item = Admin | User

datatype status_item = Pending | Approved | Rejected

fun role_value :: "role_item \<Rightarrow> string" where
  "role_value Admin = ''admin''"
| "role_value User = ''user''"

fun status_value :: "status_item \<Rightarrow> string" where
  "status_value Pending = ''pending''"
| "status_value Approved = ''approved''"
| "status_value Rejected = ''rejected''"

datatype form_event =
    TypeUsername string
  | TypeEmail string
  | PickRole role_item
  | PickStatus status_item
  | ClickCancel

fun form_step :: "dashboard \<Rightarrow> form_event \<Rightarrow> dashboard" where
  "form_step s (TypeUsername v) = handleInputChange ''username'' v s"
| "form_step s (TypeEmail v) = handleInputChange ''email'' v s"
| "form_step s (PickRole r) = handleSelectChange ''role'' (role_value r) s"
| "form_step s (PickStatus st) = handleSelectChange ''status'' (status_value st) s"
| "form_step s ClickCancel = handleCancel s"

definition initialDashboard :: dashboard where
  "initialDashboard =
     \<lparr>formData = emptyForm,
      da_stats = \<lparr>totalUsers = 0, pendingApprovals = 0, rejectedUsers = 0, totalDocuments = 0\<rparr>,
      da_submitting = False, da_toasts = []\<rparr>"

definition fetchStats :: "auth \<Rightarrow> firestore \<Rightarrow> dashboard \<Rightarrow> dashboard" where
  "fetchStats user db s =
     (if \<not> hasEmail user then s
      else
        (case getDocs db (users db) [whereEq createdBy (the user)] of
           Inl error \<Rightarrow> s
         | Inr usersSnapshot \<Rightarrow>
        (case getDocs db (users db)
                [whereEq createdBy (the user), whereEq status ''pending''] of
           Inl error \<Rightarrow> s
         | Inr pendingSnapshot \<Rightarrow>
        (case getDocs db (users db)
                [whereEq createdBy (the user), whereEq status ''rejected''] of
           Inl error \<Rightarrow> s
         | Inr rejectedSnapshot \<Rightarrow>
        (case getDocs db (documents db) [whereEq doc_createdBy (the user)] of
           Inl error \<Rightarrow> s
         | Inr documentsSnapshot \<Rightarrow>
             s\<lparr>da_stats := \<lparr>totalUsers = length usersSnapshot,
                             pendingApprovals = length pendingSnapshot,
                             rejectedUsers = length rejectedSnapshot,
                             totalDocuments = length documentsSnapshot\<rparr>\<rparr>)))))"

section \<open>Portal login page\<close>

text \<open>
  The browser as the portal uses it: the item \<open>userPortalEmail\<close> of the tab's session
  storage and the current route.
\<close>

record browser =
  sessionStorage :: "string option"
  route :: string

record portal_login =
  pl_email :: string
  pl_error :: string
  pl_loading :: bool

text \<open>
  The test of \<open>/^[^\s@]+@[^\s@]+\.[^\s@]+$/\<close>: no character of the string is white
  space, it has exactly one \<open>@\<close>, with something before it, and after it a dot that has
  something on both sides.
\<close>

definition emailRegex_test :: "string \<Rightarrow> bool" where
  "emailRegex_test s =
     (let local = takeWhile (\<lambda>c. c \<noteq> CHR ''@'') s;
          rest = dropWhile (\<lambda>c. c \<noteq> CHR ''@'') s
      in local \<noteq> [] \<and> \<not> list_ex isSpace local \<and> rest \<noteq> [] \<and>
         \<not> list_ex (\<lambda>c. isSpace c \<or> c = CHR ''@'') (tl rest) \<and>
         list_ex (\<lambda>c. c = CHR ''.'') (butlast (tl (tl rest))))"

definition portal_handleSubmit ::
    "firestore \<Rightarrow> portal_login \<Rightarrow> browser \<Rightarrow> portal_login \<times> browser" where
  "portal_handleSubmit db s0 b =
     (let s = s0\<lparr>pl_error := []\<rparr> in
      if trim (pl_email s) = [] then
        (s\<lparr>pl_error := ''Please enter your email address''\<rparr>, b)
      else if \<not> emailRegex_test (pl_email s) then
        (s\<lparr>pl_error := ''Please enter a valid email address''\<rparr>, b)
      else
        (case getDocs db (users db) [whereEq email (trim (pl_email s))] of
           Inl err \<Rightarrow>
             (s\<lparr>pl_error := (if err_message err \<noteq> [] then err_message err
                               else ''Failed to access user portal''),
                pl_loading := False\<rparr>, b)
         | Inr [] \<Rightarrow>
             (s\<lparr>pl_error := ''Email not found. Please contact your administrator.'',
                pl_loading := False\<rparr>, b)
         | Inr (userData # others) \<Rightarrow>
             if status userData \<noteq> ''approved'' then
               (s\<lparr>pl_error := ''Your account verification is '' @ status userData @
                                ''. Please contact your administrator.'',
                  pl_loading := False\<rparr>, b)
             else
               (s\<lparr>pl_loading := False\<rparr>,
                b\<lparr>sessionStorage := Some (trim (pl_email s)),
                  route := ''/user-portal-dashboard''\<rparr>)))"

section \<open>Portal dashboard\<close>

record image_file =
  file_name :: string
  file_type :: string
  file_size :: nat

record portal_dashboard =
  pd_userData :: "account option"
  pd_documents :: "document list"
  pd_loading :: bool
  pd_sidebarOpen :: bool
  pd_selectedFile :: "image_file option"
  pd_uploading :: bool
  pd_userImages :: "image_ref list"
  pd_editingImage :: "image_ref option"
  pd_toasts :: "toast list"

text \<open>
  What lies outside the page: the database, the states it has gone through by this
  page's writes (one entry per committed write, in order), the files posted to the image
  host (one entry per HTTP request, in order), and the browser.
\<close>

record world =
  store :: firestore
  history :: "firestore list"
  requests :: "image_file list"
  browser :: browser

definition commit :: "firestore \<Rightarrow> world \<Rightarrow> world" where
  "commit d w = w\<lparr>store := d, history := history w @ [d]\<rparr>"

text \<open>
  \<open>fetchUserData(email)\<close>; the argument is what \<open>sessionStorage.getItem\<close> gave,
  which is \<open>null\<close> when the item is missing.
\<close>

definition fetchUserData :: "string option \<Rightarrow> firestore \<Rightarrow> portal_dashboard \<Rightarrow> portal_dashboard" where
  "fetchUserData em d s =
     (case getDocs d (users d) [whereEq (\<lambda>a. Some (email a)) em] of
        Inl error \<Rightarrow> s\<lparr>pd_loading := False\<rparr>
      | Inr [] \<Rightarrow> s\<lparr>pd_loading := False\<rparr>
      | Inr (userDoc # others) \<Rightarrow>
          s\<lparr>pd_userData := Some userDoc, pd_userImages := images userDoc,
            pd_loading := False\<rparr>)"

definition fetchUserDocuments :: "string \<Rightarrow> firestore \<Rightarrow> portal_dashboard \<Rightarrow> portal_dashboard" where
  "fetchUserDocuments em d s =
     (case getDocs d (documents d) [] of
        Inl error \<Rightarrow> s
      | Inr allDocs \<Rightarrow>
          s\<lparr>pd_documents :=
               filter (\<lambda>doc. list_ex (\<lambda>user. au_email user = em) (assignedUsers doc)) allDocs\<rparr>)"

definition handleLogout :: "portal_dashboard \<Rightarrow> world \<Rightarrow> portal_dashboard \<times> world" where
  "handleLogout s w =
     (s, w\<lparr>browser := (browser w)\<lparr>sessionStorage := None, route := ''/user-portal-login''\<rparr>\<rparr>)"

text \<open>\<open>handleFileSelect\<close>; the argument is \<open>e.target.files[0]\<close>.\<close>

definition handleFileSelect :: "image_file option \<Rightarrow> portal_dashboard \<Rightarrow> portal_dashboard" where
  "handleFileSelect f s =
     (case f of
        None \<Rightarrow> s
      | Some fl \<Rightarrow>
          if \<not> startsWith (file_type fl) ''image/'' then
            s\<lparr>pd_toasts := pd_toasts s @ [errorToast ''Please select an image file.'']\<rparr>
          else if file_size fl > 5 * 1024 * 1024 then
            s\<lparr>pd_toasts := pd_toasts s @ [errorToast ''Image size should not exceed 5MB.'']\<rparr>
          else s\<lparr>pd_selectedFile := Some fl\<rparr>)"

text \<open>
  The image host adapter. \<open>uploadImageToImgBB\<close> reads the file, posts it, and maps
  the reply; what the environment does is the \<open>host_reply\<close>: the file cannot be read
  (no request is made), the request fails (with the message of the host's error reply,
  if it sent one), the host answers without \<open>success\<close>, or it answers with the data of
  the stored image. The error carries what the caller's
  \<open>error.response?.data?.error?.message\<close> finds.
\<close>

record upload_result =
  ur_url :: string
  ur_display_url :: string
  ur_delete_url :: string
  ur_thumb_url :: string
  ur_medium_url :: string
  ur_image_id :: string

datatype host_reply =
    ReadFailed
  | PostFailed "string option"
  | Unsuccessful
  | Uploaded upload_result

fun uploadImageToImgBB ::
    "image_file \<Rightarrow> host_reply \<Rightarrow> image_file list \<Rightarrow> (string option + upload_result) \<times> image_file list" where
  "uploadImageToImgBB imageFile ReadFailed reqs = (Inl None, reqs)"
| "uploadImageToImgBB imageFile (PostFailed m) reqs = (Inl m, reqs @ [imageFile])"
| "uploadImageToImgBB imageFile Unsuccessful reqs = (Inl None, reqs @ [imageFile])"
| "uploadImageToImgBB imageFile (Uploaded r) reqs = (Inr r, reqs @ [imageFile])"

definition imagesPatch :: "(image_ref list \<Rightarrow> image_ref list) \<Rightarrow> account \<Rightarrow> account" where
  "imagesPatch f a = a\<lparr>images := f (images a)\<rparr>"

definition uploadFailed :: "string option \<Rightarrow> portal_dashboard \<Rightarrow> portal_dashboard" where
  "uploadFailed m s =
     s\<lparr>pd_toasts := pd_toasts s @
          [errorToast (case m of
                         None \<Rightarrow> ''Failed to upload image.''
                       | Some msg \<Rightarrow> if msg \<noteq> [] then msg else ''Failed to upload image.'')],
       pd_uploading := False\<rparr>"

definition uploadDone :: "portal_dashboard \<Rightarrow> world \<Rightarrow> portal_dashboard \<times> world" where
  "uploadDone s w =
     ((fetchUserData (sessionStorage (browser w)) (store w) s)
        \<lparr>pd_selectedFile := None, pd_uploading := False\<rparr>, w)"

definition handleUploadImage ::
    "host_reply \<Rightarrow> string \<Rightarrow> portal_dashboard \<Rightarrow> world \<Rightarrow> portal_dashboard \<times> world" where
  "handleUploadImage reply now s w =
     (case pd_selectedFile s of
        None \<Rightarrow>
          (s\<lparr>pd_toasts := pd_toasts s @ [warningToast ''Please select an image first.'']\<rparr>, w)
      | Some selectedFile \<Rightarrow>
          if length (pd_userImages s) \<ge> 3 \<and> pd_editingImage s = None then
            (s\<lparr>pd_toasts := pd_toasts s @
                 [warningToast ''Maximum 3 images allowed. Please delete an existing image first.'']\<rparr>,
             w)
          else
            (case uploadImageToImgBB selectedFile reply (requests w) of
               (Inl m, reqs) \<Rightarrow> (uploadFailed m s, w\<lparr>requests := reqs\<rparr>)
             | (Inr uploadResult, reqs) \<Rightarrow>
                 (let w1 = w\<lparr>requests := reqs\<rparr>;
                      imageData = \<lparr>url = ur_url uploadResult,
                                   display_url = ur_display_url uploadResult,
                                   thumb_url = ur_thumb_url uploadResult,
                                   medium_url = ur_medium_url uploadResult,
                                   delete_url = ur_delete_url uploadResult,
                                   image_id = ur_image_id uploadResult,
                                   uploadedAt = now,
                                   filename = file_name selectedFile\<rparr>
                  in case pd_userData s of
                       None \<Rightarrow> (uploadFailed None s, w1)
                     | Some userData \<Rightarrow>
                         (case pd_editingImage s of
                            Some editingImage \<Rightarrow>
                              (case updateDoc (store w1) (acc_id userData)
                                      (imagesPatch (arrayRemove editingImage)) of
                                 Inl error \<Rightarrow> (uploadFailed None s, w1)
                               | Inr db1 \<Rightarrow>
                                   (case updateDoc db1 (acc_id userData)
                                           (imagesPatch (arrayUnion imageData)) of
                                      Inl error \<Rightarrow> (uploadFailed None s, commit db1 w1)
                                    | Inr db2 \<Rightarrow>
                                        uploadDone
                                          (s\<lparr>pd_toasts := pd_toasts s @
                                               [successToast ''Image updated successfully!''],
                                             pd_editingImage := None\<rparr>)
                                          (commit db2 (commit db1 w1))))
                          | None \<Rightarrow>
                              (case updateDoc (store w1) (acc_id userData)
                                      (imagesPatch (arrayUnion imageData)) of
                                 Inl error \<Rightarrow> (uploadFailed None s, w1)
                               | Inr db1 \<Rightarrow>
                                   uploadDone
                                     (s\<lparr>pd_toasts := pd_toasts s @
                                          [successToast ''Image uploaded successfully!'']\<rparr>)
                                     (commit db1 w1))))))"

definition handleEditImage :: "image_ref \<Rightarrow> portal_dashboard \<Rightarrow> portal_dashboard" where
  "handleEditImage img s =
     s\<lparr>pd_editingImage := Some img, pd_sidebarOpen := True,
       pd_toasts := pd_toasts s @
         [\<lparr>title = ''Edit Mode'',
           description = ''Select a new image to replace the existing one.'',
           destructive = False\<rparr>]\<rparr>"

text \<open>\<open>handleDeleteImage\<close>; \<open>confirmed\<close> is the answer to the confirmation dialog.\<close>

definition handleDeleteImage ::
    "image_ref \<Rightarrow> bool \<Rightarrow> portal_dashboard \<Rightarrow> world \<Rightarrow> portal_dashboard \<times> world" where
  "handleDeleteImage img confirmed s w =
     (if \<not> confirmed then (s, w)
      else
        (case pd_userData s of
           None \<Rightarrow>
             (s\<lparr>pd_toasts := pd_toasts s @ [errorToast ''Failed to delete image.'']\<rparr>, w)
         | Some userData \<Rightarrow>
             (case updateDoc (store w) (acc_id userData) (imagesPatch (arrayRemove img)) of
                Inl error \<Rightarrow>
                  (s\<lparr>pd_toasts := pd_toasts s @ [errorToast ''Failed to delete image.'']\<rparr>, w)
              | Inr db1 \<Rightarrow>
                  (fetchUserData (sessionStorage (browser w)) db1
                     (s\<lparr>pd_toasts := pd_toasts s @
                          [successToast ''Image removed successfully!'']\<rparr>),
                   commit db1 w))))"

definition handleCloseSidebar :: "portal_dashboard \<Rightarrow> portal_dashboard" where
  "handleCloseSidebar s =
     s\<lparr>pd_sidebarOpen := False, pd_editingImage := None, pd_selectedFile := None\<rparr>"

text \<open>The portal dashboard driven by its controls, one handler at a time.\<close>

datatype pd_event =
    FileSelect "image_file option"
  | UploadImage host_reply string
  | EditImage image_ref
  | DeleteImage image_ref bool
  | CloseSidebar

fun pd_step :: "portal_dashboard \<times> world \<Rightarrow> pd_event \<Rightarrow> portal_dashboard \<times> world" where
  "pd_step (s, w) (FileSelect f) = (handleFileSelect f s, w)"
| "pd_step (s, w) (UploadImage reply now) = handleUploadImage reply now s w"
| "pd_step (s, w) (EditImage img) = (handleEditImage img s, w)"
| "pd_step (s, w) (DeleteImage img confirmed) = handleDeleteImage img confirmed s w"
| "pd_step (s, w) CloseSidebar = (handleCloseSidebar s, w)"

definition pd_run :: "portal_dashboard \<times> world \<Rightarrow> pd_event list \<Rightarrow> portal_dashboard \<times> world" where
  "pd_run = foldl pd_step"

definition initialPortal :: portal_dashboard where
  "initialPortal =
     \<lparr>pd_userData = None, pd_documents = [], pd_loading = True, pd_sidebarOpen = False,
      pd_selectedFile = None, pd_uploading = False, pd_userImages = [],
      pd_editingImage = None, pd_toasts = []\<rparr>"

text \<open>
  The two checks of \<open>handleFileSelect\<close> as a predicate, and the invariant of the portal
  dashboard that carries them to the image host: the selected file, if any, passed the
  checks, and so did every file posted since the page was opened.
\<close>

definition passesChecks :: "image_file \<Rightarrow> bool" where
  "passesChecks f = (startsWith (file_type f) ''image/'' \<and> file_size f \<le> 5 * 1024 * 1024)"

definition uploadInv :: "image_file list \<Rightarrow> portal_dashboard \<times> world \<Rightarrow> bool" where
  "uploadInv before sw =
     ((case pd_selectedFile (fst sw) of None \<Rightarrow> True | Some f \<Rightarrow> passesChecks f) \<and>
      list_all (\<lambda>f. f \<in> set before \<or> passesChecks f) (requests (snd sw)))"

section \<open>Sample data\<close>

definition acct_demo :: account where
  "acct_demo = \<lparr>acc_id = ''u1'', username = ''Bob'', email = ''b@x.com'', role = ''user'',
     status = ''pending'', rejectionReason = None, rejectedAt = None,
     createdBy = ''admin@x.com'', createdAt = 1, images = []\<rparr>"

definition db_demo :: firestore where
  "db_demo = \<lparr>users = [acct_demo], documents = [], clinics = [], fault = None\<rparr>"

definition um_demo :: user_management where
  "um_demo = \<lparr>um_users = [acct_demo], um_loading = False, um_selectedUsers = [''u1''],
     um_bulkAction = ''rejected'', um_rejectionReason = ''spam'', um_submitting = False,
     um_toasts = []\<rparr>"

definition denied :: store_error where
  "denied = \<lparr>err_code = ''permission-denied'', err_message = ''Missing or insufficient permissions.''\<rparr>"

definition unavailable :: store_error where
  "unavailable = \<lparr>err_code = ''unavailable'', err_message = ''The service is currently unavailable.''\<rparr>"

definition dm_demo :: document_management where
  "dm_demo = \<lparr>dm_documentName = [], dm_selectedUsers = [], dm_approvedUsers = [],
     dm_documents = [bob_amy], dm_loading = False, dm_submitting = False, dm_toasts = []\<rparr>"

definition cm_demo :: clinic_management where
  "cm_demo = \<lparr>cm_clinics = [], cm_loading = False, cm_submitting = False, cm_toasts = []\<rparr>"

definition acct_other :: account where
  "acct_other = \<lparr>acc_id = ''u2'', username = ''Amy'', email = ''a@y.com'', role = ''user'',
     status = ''approved'', rejectionReason = None, rejectedAt = None,
     createdBy = ''other@x.com'', createdAt = 2, images = []\<rparr>"

definition doc_shared :: document where
  "doc_shared = \<lparr>doc_id = ''d2'', documentName = ''Plan'',
     assignedUsers = [\<lparr>au_id = ''u3'', au_username = ''Olga'', au_email = ''other@x.com''\<rparr>],
     doc_createdBy = ''admin@x.com'', doc_createdAt = 3\<rparr>"

definition db_two :: firestore where
  "db_two = \<lparr>users = [acct_demo, acct_other], documents = [doc_shared], clinics = [],
     fault = None\<rparr>"

definition um_init :: user_management where
  "um_init = \<lparr>um_users = [], um_loading = True, um_selectedUsers = [], um_bulkAction = [],
     um_rejectionReason = [], um_submitting = False, um_toasts = []\<rparr>"

definition acct_twin :: account where
  "acct_twin = \<lparr>acc_id = ''u9'', username = ''Bobby'', email = ''b@x.com'', role = ''user'',
     status = ''approved'', rejectionReason = None, rejectedAt = None,
     createdBy = ''other@x.com'', createdAt = 5, images = []\<rparr>"

definition db_dup :: firestore where
  "db_dup = \<lparr>users = [acct_demo, acct_twin], documents = [], clinics = [], fault = None\<rparr>"

definition pl_demo :: portal_login where
  "pl_demo = \<lparr>pl_email = ''b@x.com'', pl_error = [], pl_loading = False\<rparr>"

definition br_demo :: browser where
  "br_demo = \<lparr>sessionStorage = None, route = ''/user-portal-login''\<rparr>"

definition img_a :: image_ref where
  "img_a = \<lparr>url = ''https://i.ibb.co/a/a.png'', display_url = ''https://i.ibb.co/a/a.png'',
     thumb_url = ''https://i.ibb.co/a/t.png'', medium_url = ''https://i.ibb.co/a/m.png'',
     delete_url = ''https://ibb.co/a/del'', image_id = ''a'',
     uploadedAt = ''2025-01-01T00:00:00.000Z'', filename = ''a.png''\<rparr>"

definition img_b :: image_ref where
  "img_b = \<lparr>url = ''https://i.ibb.co/b/b.png'', display_url = ''https://i.ibb.co/b/b.png'',
     thumb_url = ''https://i.ibb.co/b/t.png'', medium_url = ''https://i.ibb.co/b/m.png'',
     delete_url = ''https://ibb.co/b/del'', image_id = ''b'',
     uploadedAt = ''2025-01-02T00:00:00.000Z'', filename = ''b.png''\<rparr>"

text \<open>The portal dashboard after it has loaded an account, and the world holding it.\<close>

definition loaded :: "account \<Rightarrow> portal_dashboard" where
  "loaded a = initialPortal\<lparr>pd_userData := Some a, pd_userImages := images a,
                            pd_loading := False\<rparr>"

definition world_of :: "account \<Rightarrow> world" where
  "world_of a =
     \<lparr>store = \<lparr>users = [a], documents = [], clinics = [], fault = None\<rparr>,
      history = [], requests = [],
      browser = \<lparr>sessionStorage = Some (email a), route = ''/user-portal-dashboard''\<rparr>\<rparr>"

definition png_small :: image_file where
  "png_small = \<lparr>file_name = ''c.png'', file_type = ''image/png'', file_size = 4 * 1024 * 1024\<rparr>"

definition png_big :: image_file where
  "png_big = \<lparr>file_name = ''big.png'', file_type = ''image/png'', file_size = 6 * 1024 * 1024\<rparr>"

definition host_ok :: upload_result where
  "host_ok = \<lparr>ur_url = ''https://i.ibb.co/c/c.png'', ur_display_url = ''https://i.ibb.co/c/c.png'',
     ur_delete_url = ''https://ibb.co/c/del'', ur_thumb_url = ''https://i.ibb.co/c/t.png'',
     ur_medium_url = ''https://i.ibb.co/c/m.png'', ur_image_id = ''c''\<rparr>"

definition img_c :: image_ref where
  "img_c = \<lparr>url = ''https://i.ibb.co/c/c.png'', display_url = ''https://i.ibb.co/c/c.png'',
     thumb_url = ''https://i.ibb.co/c/t.png'', medium_url = ''https://i.ibb.co/c/m.png'',
     delete_url = ''https://ibb.co/c/del'', image_id = ''c'',
     uploadedAt = ''2025-01-03T00:00:00.000Z'', filename = ''c.png''\<rparr>"


definition um_blank :: user_management where
  "um_blank = um_demo\<lparr>um_rejectionReason := ''   ''\<rparr>"

definition um_approve :: user_management where
  "um_approve = um_demo\<lparr>um_bulkAction := ''approved'', um_rejectionReason := []\<rparr>"

definition acct_rejected :: account where
  "acct_rejected = acct_demo\<lparr>status := ''rejected'', rejectionReason := Some ''spam'',
     rejectedAt := Some 7\<rparr>"

definition acct_early :: account where
  "acct_early = acct_twin\<lparr>acc_id := ''u0''\<rparr>"

definition db_dup_rev :: firestore where
  "db_dup_rev = \<lparr>users = [acct_early, acct_demo], documents = [], clinics = [], fault = None\<rparr>"

definition host_d :: upload_result where
  "host_d = \<lparr>ur_url = ''https://i.ibb.co/d/d.png'', ur_display_url = ''https://i.ibb.co/d/d.png'',
     ur_delete_url = ''https://ibb.co/d/del'', ur_thumb_url = ''https://i.ibb.co/d/t.png'',
     ur_medium_url = ''https://i.ibb.co/d/m.png'', ur_image_id = ''d''\<rparr>"

definition img_d :: image_ref where
  "img_d = \<lparr>url = ''https://i.ibb.co/d/d.png'', display_url = ''https://i.ibb.co/d/d.png'',
     thumb_url = ''https://i.ibb.co/d/t.png'', medium_url = ''https://i.ibb.co/d/m.png'',
     delete_url = ''https://ibb.co/d/del'', image_id = ''d'',
     uploadedAt = ''2025-01-04T00:00:00.000Z'', filename = ''d.png''\<rparr>"

text \<open>
  Two tabs of the portal dashboard opened while the account held two images, each with a
  file selected; and the world after the other tab has uploaded its file.
\<close>

definition png_d :: image_file where
  "png_d = \<lparr>file_name = ''d.png'', file_type = ''image/png'', file_size = 1024\<rparr>"

definition tab_two :: portal_dashboard where
  "tab_two = (loaded (acct_demo\<lparr>images := [img_a, img_b]\<rparr>))\<lparr>pd_selectedFile := Some png_small\<rparr>"

definition tab_stale :: portal_dashboard where
  "tab_stale = (loaded (acct_demo\<lparr>images := [img_a, img_b]\<rparr>))\<lparr>pd_selectedFile := Some png_d\<rparr>"

definition world_three :: world where
  "world_three =
     snd (handleUploadImage (Uploaded host_ok) ''2025-01-03T00:00:00.000Z'' tab_two
            (world_of (acct_demo\<lparr>images := [img_a, img_b]\<rparr>)))"

section \<open>Properties\<close>

lemma join_rows:
  "join [CHR 0x0A] (h # map f us) = h @ concat (map (\<lambda>u. CHR 0x0A # f u) us)"
  by (induction us arbitrary: h) simp_all

text \<open>
  C5. The CSV export of a document is the header row \<open>Username,Email\<close> followed, for
  each assigned user in order, by a line feed, the username, a comma and the email, the
  fields copied as they are; the file is named after the document with \<open>.csv\<close>
  appended. For the assigned users Bob (b@x.com) and Amy (a@y.com) the content is the
  three lines of the specification.
\<close>

theorem csv_export_exact:
  "dl_content (handleDownload d) =
     ''Username,Email'' @
       concat (map (\<lambda>u. [CHR 0x0A] @ au_username u @ '','' @ au_email u) (assignedUsers d))
   \<and> dl_name (handleDownload d) = documentName d @ ''.csv''
   \<and> fst (dm_handleDownload d s) = handleDownload d
   \<and> dl_content (handleDownload bob_amy) =
       ''Username,Email'' @ [CHR 0x0A] @ ''Bob,b@x.com'' @ [CHR 0x0A] @ ''Amy,a@y.com''"
  by (simp add: dm_handleDownload_def handleDownload_def csvContent_def join_rows bob_amy_def
        comp_def)

theorem csv_export_exact_witness:
  "dl_name (fst (dm_handleDownload bob_amy dm_demo)) = ''Roster.csv''
   \<and> dl_name (handleDownload bob_amy) = ''Roster.csv''
   \<and> dl_content (handleDownload bob_amy) =
       ''Username,Email'' @ [CHR 0x0A] @ ''Bob,b@x.com'' @ [CHR 0x0A] @ ''Amy,a@y.com''"
  using csv_export_exact[of bob_amy dm_demo] by (simp add: bob_amy_def)

subsection \<open>Bulk status transition\<close>

lemma updateDoc_fault: "updateDoc db uid p = Inr db' \<Longrightarrow> fault db = None \<and> fault db' = None"
  by (auto simp: updateDoc_def split: option.splits if_splits)

lemma updateDoc_users:
  "updateDoc db uid p = Inr db' \<Longrightarrow>
     users db' = map (\<lambda>a. if acc_id a = uid then p a else a) (users db)"
  by (auto simp: updateDoc_def split: option.splits if_splits)

lemma updateDoc_missing:
  "updateDoc db uid p = Inl e \<Longrightarrow> fault db = None \<Longrightarrow> uid \<notin> acc_id ` set (users db)"
  by (auto simp: updateDoc_def list_ex_iff split: option.splits if_splits)

lemma updateAll_fault:
  "fault db \<noteq> None \<Longrightarrow> fst (updateAll db uids p) = db"
  by (induction uids) (auto simp: updateDoc_def split: option.splits)

lemma updateAll_users:
  assumes "fault db = None" "\<And>a. acc_id (p a) = acc_id a" "\<And>a. p (p a) = p a"
  shows "users (fst (updateAll db uids p)) =
           map (\<lambda>a. if acc_id a \<in> set uids then p a else a) (users db)"
  using assms(1)
proof (induction uids arbitrary: db)
  case Nil
  then show ?case by simp
next
  case (Cons uid uids)
  show ?case
  proof (cases "updateDoc db uid p")
    case (Inl e)
    from updateDoc_missing[OF Inl Cons.prems] have "uid \<notin> acc_id ` set (users db)" .
    then have "map (\<lambda>a. if acc_id a \<in> set (uid # uids) then p a else a) (users db)
        = map (\<lambda>a. if acc_id a \<in> set uids then p a else a) (users db)"
      by (intro map_cong) auto
    with Inl Cons.IH[OF Cons.prems] show ?thesis by simp
  next
    case (Inr db1)
    from updateDoc_fault[OF Inr] have f1: "fault db1 = None" by simp
    have u1: "users db1 = map (\<lambda>a. if acc_id a = uid then p a else a) (users db)"
      by (rule updateDoc_users[OF Inr])
    have "map (\<lambda>a. if acc_id a \<in> set uids then p a else a)
            (map (\<lambda>a. if acc_id a = uid then p a else a) (users db))
        = map (\<lambda>a. if acc_id a \<in> set (uid # uids) then p a else a) (users db)"
      unfolding map_map by (rule map_cong) (simp_all add: assms(2,3))
    with Inr Cons.IH[OF f1] u1 show ?thesis by simp
  qed
qed

lemma trim_nonempty: "trim r \<noteq> [] \<Longrightarrow> r \<noteq> []"
  by (auto simp: trim_def)

lemma updateData_id: "acc_id (updateData act r ts a) = acc_id a"
  by (simp add: updateData_def)

lemma updateData_idem: "updateData act r ts (updateData act r ts a) = updateData act r ts a"
  by (simp add: updateData_def)

lemma handleBulkUpdate_db:
  "snd (handleBulkUpdate user ts s db) =
     (if um_bulkAction s = [] \<or> um_selectedUsers s = [] \<or>
         (um_bulkAction s = ''rejected'' \<and> trim (um_rejectionReason s) = [])
      then db
      else fst (updateAll db (um_selectedUsers s)
                  (updateData (um_bulkAction s) (um_rejectionReason s) ts)))"
proof -
  obtain db' r where u: "updateAll db (um_selectedUsers s)
                  (updateData (um_bulkAction s) (um_rejectionReason s) ts) = (db', r)"
    by (cases "updateAll db (um_selectedUsers s)
                  (updateData (um_bulkAction s) (um_rejectionReason s) ts)")
  show ?thesis
    unfolding handleBulkUpdate_def u by (cases r) (simp_all add: Let_def)
qed

lemma bulk_users:
  assumes "fault db = None" "um_bulkAction s \<noteq> []" "um_selectedUsers s \<noteq> []"
    "\<not> (um_bulkAction s = ''rejected'' \<and> trim (um_rejectionReason s) = [])"
  shows "users (snd (handleBulkUpdate user ts s db)) =
     map (\<lambda>a. if acc_id a \<in> set (um_selectedUsers s)
               then updateData (um_bulkAction s) (um_rejectionReason s) ts a else a) (users db)"
proof -
  have "snd (handleBulkUpdate user ts s db) =
      fst (updateAll db (um_selectedUsers s)
                  (updateData (um_bulkAction s) (um_rejectionReason s) ts))"
    using assms(2-4) by (simp only: handleBulkUpdate_db if_False simp_thms)
  then show ?thesis
    by (simp only: updateAll_users[of db "updateData (um_bulkAction s) (um_rejectionReason s) ts"
          "um_selectedUsers s", OF assms(1) updateData_id updateData_idem])
qed

lemma updated_ids:
  "acc_id ` set (map (\<lambda>a. if acc_id a \<in> S then updateData act r ts a else a) xs) = acc_id ` set xs"
  by (induction xs) (simp_all add: updateData_id)

lemma updated_rejected:
  assumes "a \<in> set (map (\<lambda>a. if acc_id a \<in> S then updateData ''rejected'' r ts a else a) xs)"
    and "acc_id a \<in> S"
  shows "status a = ''rejected'' \<and> rejectionReason a = Some r \<and> rejectedAt a = Some ts"
proof -
  from assms obtain b where "b \<in> set xs" and a: "a = (if acc_id b \<in> S then updateData ''rejected'' r ts b else b)"
    by auto
  with assms(2) have "a = updateData ''rejected'' r ts b"
    by (cases "acc_id b \<in> S") simp_all
  then show ?thesis by (simp add: updateData_def)
qed

lemma updated_cleared:
  assumes "a \<in> set (map (\<lambda>a. if acc_id a \<in> S then updateData act r ts a else a) xs)"
    and "acc_id a \<in> S" and "act \<noteq> ''rejected''"
  shows "status a = act \<and> rejectionReason a = None \<and> rejectedAt a = None"
proof -
  from assms obtain b where "b \<in> set xs" and a: "a = (if acc_id b \<in> S then updateData act r ts b else b)"
    by auto
  with assms(2) have "a = updateData act r ts b"
    by (cases "acc_id b \<in> S") simp_all
  then show ?thesis using assms(3) by (simp add: updateData_def)
qed

text \<open>
  C2. A bulk status transition over a non-empty selection: with the target \<open>rejected\<close>
  and a reason that is empty after trimming, nothing is written; with the target
  \<open>rejected\<close> and a reason that is not, every selected account ends with status
  \<open>rejected\<close>, that reason (which is not empty) and the server's timestamp as
  \<open>rejectedAt\<close>; with the target \<open>approved\<close> or \<open>pending\<close>, every selected
  account ends with that status and with \<open>rejectionReason\<close> and \<open>rejectedAt\<close>
  cleared. No account appears or disappears, and a store that rejects the calls is left
  as it was.
\<close>

theorem bulk_status_transition:
  assumes sel: "um_selectedUsers s \<noteq> []"
  shows
   "(um_bulkAction s = ''rejected'' \<and> trim (um_rejectionReason s) = []
       \<longrightarrow> snd (handleBulkUpdate user ts s db) = db)
    \<and> (fault db \<noteq> None \<longrightarrow> snd (handleBulkUpdate user ts s db) = db)
    \<and> (fault db = None \<and> um_bulkAction s = ''rejected'' \<and> trim (um_rejectionReason s) \<noteq> []
       \<longrightarrow> acc_id ` set (users (snd (handleBulkUpdate user ts s db))) = acc_id ` set (users db)
         \<and> (\<forall>a \<in> set (users (snd (handleBulkUpdate user ts s db))).
               acc_id a \<in> set (um_selectedUsers s) \<longrightarrow>
                 status a = ''rejected'' \<and> rejectionReason a = Some (um_rejectionReason s)
                 \<and> um_rejectionReason s \<noteq> [] \<and> rejectedAt a = Some ts))
    \<and> (fault db = None \<and> (um_bulkAction s = ''approved'' \<or> um_bulkAction s = ''pending'')
       \<longrightarrow> acc_id ` set (users (snd (handleBulkUpdate user ts s db))) = acc_id ` set (users db)
         \<and> (\<forall>a \<in> set (users (snd (handleBulkUpdate user ts s db))).
               acc_id a \<in> set (um_selectedUsers s) \<longrightarrow>
                 status a = um_bulkAction s \<and> rejectionReason a = None \<and> rejectedAt a = None))"
proof -
  let ?db' = "snd (handleBulkUpdate user ts s db)"
  have stop: "um_bulkAction s = ''rejected'' \<and> trim (um_rejectionReason s) = [] \<longrightarrow> ?db' = db"
    by (simp add: handleBulkUpdate_db)
  have flt: "fault db \<noteq> None \<longrightarrow> ?db' = db"
    by (simp add: handleBulkUpdate_db updateAll_fault)
  have rej: "acc_id ` set (users ?db') = acc_id ` set (users db)
         \<and> (\<forall>a \<in> set (users ?db').
               acc_id a \<in> set (um_selectedUsers s) \<longrightarrow>
                 status a = ''rejected'' \<and> rejectionReason a = Some (um_rejectionReason s)
                 \<and> um_rejectionReason s \<noteq> [] \<and> rejectedAt a = Some ts)"
    if h: "fault db = None \<and> um_bulkAction s = ''rejected'' \<and> trim (um_rejectionReason s) \<noteq> []"
  proof -
    from h have act: "um_bulkAction s = ''rejected''" and ne: "um_bulkAction s \<noteq> []"
      and tr: "\<not> (um_bulkAction s = ''rejected'' \<and> trim (um_rejectionReason s) = [])"
      and f: "fault db = None" by simp_all
    have u: "users ?db' = map (\<lambda>a. if acc_id a \<in> set (um_selectedUsers s)
               then updateData ''rejected'' (um_rejectionReason s) ts a else a) (users db)"
      using bulk_users[OF f ne sel tr, of user ts] by (simp only: act)
    from h have r: "um_rejectionReason s \<noteq> []" using trim_nonempty by blast
    show ?thesis
      unfolding u using updated_ids updated_rejected r by blast
  qed
  have clr: "acc_id ` set (users ?db') = acc_id ` set (users db)
         \<and> (\<forall>a \<in> set (users ?db').
               acc_id a \<in> set (um_selectedUsers s) \<longrightarrow>
                 status a = um_bulkAction s \<and> rejectionReason a = None \<and> rejectedAt a = None)"
    if h: "fault db = None \<and> (um_bulkAction s = ''approved'' \<or> um_bulkAction s = ''pending'')"
  proof -
    from h have nr: "um_bulkAction s \<noteq> ''rejected''" and ne: "um_bulkAction s \<noteq> []"
      and f: "fault db = None" by auto
    have u: "users ?db' = map (\<lambda>a. if acc_id a \<in> set (um_selectedUsers s)
               then updateData (um_bulkAction s) (um_rejectionReason s) ts a else a) (users db)"
      using bulk_users[OF f ne sel, of user ts] nr by simp
    show ?thesis
      unfolding u using updated_ids updated_cleared[OF _ _ nr] by blast
  qed
  from stop flt rej clr show ?thesis by blast
qed

lemma trim_spam: "trim ''spam'' = ''spam''"
  by (simp add: trim_def isSpace_def)

lemma blank_reason: "trim ''   '' = []"
  by (simp add: trim_def isSpace_def)

lemma bulk_reject_run:
  "users (snd (handleBulkUpdate (Some ''admin@x.com'') 7 um_demo db_demo)) = [acct_rejected]"
  by (simp add: handleBulkUpdate_def um_demo_def db_demo_def acct_demo_def trim_spam
        updateDoc_def updateData_def Let_def acct_rejected_def)

lemma bulk_approve_run:
  "users (snd (handleBulkUpdate (Some ''admin@x.com'') 8 um_approve
        (db_demo\<lparr>users := [acct_rejected]\<rparr>))) =
     [acct_demo\<lparr>status := ''approved''\<rparr>]"
  by (simp add: handleBulkUpdate_def um_approve_def um_demo_def db_demo_def acct_demo_def
        updateDoc_def updateData_def Let_def acct_rejected_def)

theorem bulk_status_transition_witness:
  "um_selectedUsers um_demo \<noteq> [] \<and> fault db_demo = None
   \<and> um_bulkAction um_demo = ''rejected'' \<and> trim (um_rejectionReason um_demo) \<noteq> []
   \<and> users (snd (handleBulkUpdate (Some ''admin@x.com'') 7 um_demo db_demo)) = [acct_rejected]
   \<and> rejectionReason (hd (users (snd (handleBulkUpdate (Some ''admin@x.com'') 7 um_demo db_demo))))
        = Some ''spam''
   \<and> rejectedAt (hd (users (snd (handleBulkUpdate (Some ''admin@x.com'') 7 um_demo db_demo))))
        = Some 7
   \<and> um_bulkAction um_blank = ''rejected'' \<and> trim (um_rejectionReason um_blank) = []
   \<and> snd (handleBulkUpdate (Some ''admin@x.com'') 7 um_blank db_demo) = db_demo
   \<and> snd (handleBulkUpdate (Some ''admin@x.com'') 7 um_demo (db_demo\<lparr>fault := Some denied\<rparr>)) =
        db_demo\<lparr>fault := Some denied\<rparr>
   \<and> um_bulkAction um_approve = ''approved''
   \<and> users (db_demo\<lparr>users := [acct_rejected]\<rparr>) = [acct_rejected]
   \<and> status (hd (users (snd (handleBulkUpdate (Some ''admin@x.com'') 8 um_approve
        (db_demo\<lparr>users := [acct_rejected]\<rparr>))))) = ''approved''
   \<and> rejectionReason (hd (users (snd (handleBulkUpdate (Some ''admin@x.com'') 8 um_approve
        (db_demo\<lparr>users := [acct_rejected]\<rparr>))))) = None
   \<and> rejectedAt (hd (users (snd (handleBulkUpdate (Some ''admin@x.com'') 8 um_approve
        (db_demo\<lparr>users := [acct_rejected]\<rparr>))))) = None"
proof -
  let ?us = "users (snd (handleBulkUpdate (Some ''admin@x.com'') 7 um_demo db_demo))"
  let ?dbr = "db_demo\<lparr>users := [acct_rejected]\<rparr>"
  let ?ua = "users (snd (handleBulkUpdate (Some ''admin@x.com'') 8 um_approve ?dbr))"
  have h1: "um_selectedUsers um_demo \<noteq> []"
    by (simp add: um_demo_def)
  have h2: "fault db_demo = None \<and> um_bulkAction um_demo = ''rejected''
      \<and> trim (um_rejectionReason um_demo) \<noteq> []"
    by (simp add: um_demo_def db_demo_def trim_spam)
  have r: "um_rejectionReason um_demo = ''spam''"
    by (simp add: um_demo_def)
  have m: "hd ?us \<in> set ?us"
    unfolding bulk_reject_run by simp
  have ms: "acc_id (hd ?us) \<in> set (um_selectedUsers um_demo)"
    unfolding bulk_reject_run by (simp add: um_demo_def acct_demo_def acct_rejected_def)
  note t = bulk_status_transition[OF h1, of "Some ''admin@x.com''" 7 db_demo]
  note t3 = t[THEN conjunct2, THEN conjunct2, THEN conjunct1, THEN mp, OF h2]
  note c1 = t3[THEN conjunct2, THEN bspec, OF m, THEN mp, OF ms]
  have b1: "um_selectedUsers um_blank \<noteq> []"
    by (simp add: um_blank_def um_demo_def)
  have b2: "um_bulkAction um_blank = ''rejected'' \<and> trim (um_rejectionReason um_blank) = []"
    by (simp add: um_blank_def um_demo_def blank_reason)
  note c2 = bulk_status_transition[OF b1, of "Some ''admin@x.com''" 7 db_demo,
      THEN conjunct1, THEN mp, OF b2]
  have f: "fault (db_demo\<lparr>fault := Some denied\<rparr>) \<noteq> None"
    by simp
  note c3 = bulk_status_transition[OF h1, of "Some ''admin@x.com''" 7
      "db_demo\<lparr>fault := Some denied\<rparr>", THEN conjunct2, THEN conjunct1, THEN mp, OF f]
  have a1: "um_selectedUsers um_approve \<noteq> []"
    by (simp add: um_approve_def um_demo_def)
  have a2: "fault ?dbr = None
      \<and> (um_bulkAction um_approve = ''approved'' \<or> um_bulkAction um_approve = ''pending'')"
    by (simp add: um_approve_def db_demo_def)
  have a3: "um_bulkAction um_approve = ''approved''"
    by (simp add: um_approve_def)
  have n: "hd ?ua \<in> set ?ua"
    unfolding bulk_approve_run by simp
  have ns: "acc_id (hd ?ua) \<in> set (um_selectedUsers um_approve)"
    unfolding bulk_approve_run by (simp add: um_approve_def um_demo_def acct_demo_def)
  note t4 = bulk_status_transition[OF a1, of "Some ''admin@x.com''" 8 ?dbr,
      THEN conjunct2, THEN conjunct2, THEN conjunct2, THEN mp, OF a2]
  note c4 = t4[THEN conjunct2, THEN bspec, OF n, THEN mp, OF ns]
  have u: "users ?dbr = [acct_rejected]"
    by simp
  show ?thesis
    apply (intro conjI)
                  apply (rule h1)
                 apply (rule h2[THEN conjunct1])
                apply (rule h2[THEN conjunct2, THEN conjunct1])
               apply (rule h2[THEN conjunct2, THEN conjunct2])
              apply (rule bulk_reject_run)
             apply (rule c1[THEN conjunct2, THEN conjunct1, unfolded r])
            apply (rule c1[THEN conjunct2, THEN conjunct2, THEN conjunct2])
           apply (rule b2[THEN conjunct1])
          apply (rule b2[THEN conjunct2])
         apply (rule c2)
        apply (rule c3)
       apply (rule a3)
      apply (rule u)
     apply (rule c4[THEN conjunct1, unfolded a3])
    apply (rule c4[THEN conjunct2, THEN conjunct1])
    apply (rule c4[THEN conjunct2, THEN conjunct2])
    done
qed

subsection \<open>Failed fetches\<close>

lemma getDocs_fault: "fault db = Some e \<Longrightarrow> getDocs db coll cs = Inl e"
  by (simp add: getDocs_def)

lemma getDocs_ok:
  "fault db = None \<Longrightarrow> getDocs db coll cs = Inr (filter (\<lambda>r. list_all (\<lambda>c. c r) cs) coll)"
  by (simp add: getDocs_def)

text \<open>
  C10. When the store rejects the query, the documents fetch empties the page's list and
  shows the error notice unless the error code is \<open>permission-denied\<close>; the users
  fetch and the clinics fetch keep their lists and show their error notice whatever the
  code.
\<close>

theorem fetch_failure_handling:
  assumes "hasEmail user" and "fault db = Some e"
  shows "dm_documents (fetchDocuments user db sd) = []
     \<and> dm_toasts (fetchDocuments user db sd) =
         (if err_code e \<noteq> ''permission-denied''
          then dm_toasts sd @ [errorToast ''Failed to load documents.'']
          else dm_toasts sd)
     \<and> um_users (fetchUsers user db su) = um_users su
     \<and> um_toasts (fetchUsers user db su) = um_toasts su @ [errorToast ''Failed to load users.'']
     \<and> cm_clinics (fetchClinics user db sc) = cm_clinics sc
     \<and> cm_toasts (fetchClinics user db sc) = cm_toasts sc @ [errorToast ''Failed to load clinics.'']"
  using assms
  by (simp add: fetchDocuments_def fetchUsers_def fetchClinics_def getDocs_fault Let_def)

theorem fetch_failure_handling_witness:
  "hasEmail (Some ''admin@x.com'') \<and> fault (db_demo\<lparr>fault := Some denied\<rparr>) = Some denied
   \<and> dm_documents dm_demo = [bob_amy]
   \<and> dm_documents (fetchDocuments (Some ''admin@x.com'') (db_demo\<lparr>fault := Some denied\<rparr>) dm_demo) = []
   \<and> dm_toasts (fetchDocuments (Some ''admin@x.com'') (db_demo\<lparr>fault := Some denied\<rparr>) dm_demo) = []
   \<and> dm_documents (fetchDocuments (Some ''admin@x.com'') (db_demo\<lparr>fault := Some unavailable\<rparr>) dm_demo) = []
   \<and> dm_toasts (fetchDocuments (Some ''admin@x.com'') (db_demo\<lparr>fault := Some unavailable\<rparr>) dm_demo) =
        [errorToast ''Failed to load documents.'']
   \<and> um_users (fetchUsers (Some ''admin@x.com'') (db_demo\<lparr>fault := Some denied\<rparr>) um_demo) = [acct_demo]
   \<and> um_toasts (fetchUsers (Some ''admin@x.com'') (db_demo\<lparr>fault := Some denied\<rparr>) um_demo) =
        [errorToast ''Failed to load users.'']
   \<and> cm_toasts (fetchClinics (Some ''admin@x.com'') (db_demo\<lparr>fault := Some denied\<rparr>) cm_demo) =
        [errorToast ''Failed to load clinics.'']"
proof -
  have h1: "hasEmail (Some ''admin@x.com'')"
    by (simp add: hasEmail_def)
  have h2: "fault (db_demo\<lparr>fault := Some denied\<rparr>) = Some denied"
    by simp
  have c: "err_code denied = ''permission-denied''"
    by (simp add: denied_def)
  have h3: "fault (db_demo\<lparr>fault := Some unavailable\<rparr>) = Some unavailable"
    by simp
  have c': "err_code unavailable \<noteq> ''permission-denied''"
    by (simp add: unavailable_def)
  show ?thesis
    using fetch_failure_handling[OF h1 h2, of dm_demo um_demo cm_demo]
      fetch_failure_handling[OF h1 h3, of dm_demo um_demo cm_demo] h1 c c'
    by (simp add: dm_demo_def um_demo_def cm_demo_def)
qed

subsection \<open>Owner scoping of reads\<close>

lemma getDocs_owned:
  "getDocs db coll (whereEq f B # cs) = Inr rs \<Longrightarrow> r \<in> set rs \<Longrightarrow> f r = B \<and> r \<in> set coll"
  by (cases "fault db") (auto simp: getDocs_def whereEq_def)

lemma fetchUsers_owned:
  assumes "r \<in> set (um_users (fetchUsers (Some B) db su))"
  shows "r \<in> set (um_users su) \<or> (r \<in> set (users db) \<and> createdBy r = B)"
proof (cases "hasEmail (Some B)")
  case False
  with assms show ?thesis by (simp add: fetchUsers_def)
next
  case True
  show ?thesis
  proof (cases "getDocs db (users db) [whereEq createdBy B]")
    case (Inl e)
    with True assms show ?thesis by (simp add: fetchUsers_def)
  next
    case (Inr rs)
    with True assms have "r \<in> set rs" by (simp add: fetchUsers_def)
    with getDocs_owned[OF Inr] show ?thesis by blast
  qed
qed

lemma fetchDocuments_owned:
  assumes "r \<in> set (dm_documents (fetchDocuments (Some B) db sd))"
  shows "r \<in> set (dm_documents sd) \<or> (r \<in> set (documents db) \<and> doc_createdBy r = B)"
proof (cases "hasEmail (Some B)")
  case False
  with assms show ?thesis by (simp add: fetchDocuments_def)
next
  case True
  show ?thesis
  proof (cases "getDocs db (documents db) [whereEq doc_createdBy B]")
    case (Inl e)
    with True assms show ?thesis by (simp add: fetchDocuments_def Let_def)
  next
    case (Inr rs)
    with True assms have "r \<in> set rs" by (simp add: fetchDocuments_def)
    with getDocs_owned[OF Inr] show ?thesis by blast
  qed
qed

lemma fetchClinics_owned:
  assumes "r \<in> set (cm_clinics (fetchClinics (Some B) db sc))"
  shows "r \<in> set (cm_clinics sc) \<or> (r \<in> set (clinics db) \<and> clinic_createdBy r = B)"
proof (cases "hasEmail (Some B)")
  case False
  with assms show ?thesis by (simp add: fetchClinics_def)
next
  case True
  show ?thesis
  proof (cases "getDocs db (clinics db) [whereEq clinic_createdBy B]")
    case (Inl e)
    with True assms show ?thesis by (simp add: fetchClinics_def)
  next
    case (Inr rs)
    with True assms have "r \<in> set rs" by (simp add: fetchClinics_def)
    with getDocs_owned[OF Inr] show ?thesis by blast
  qed
qed

lemma fetchApprovedUsers_owned:
  assumes "opt \<in> set (dm_approvedUsers (fetchApprovedUsers (Some B) db sd))"
  shows "opt \<in> set (dm_approvedUsers sd) \<or>
         (\<exists>r \<in> set (users db). createdBy r = B \<and> opt_value opt = acc_id r
                                 \<and> opt_email opt = email r \<and> opt_username opt = username r)"
proof (cases "hasEmail (Some B)")
  case False
  with assms show ?thesis by (simp add: fetchApprovedUsers_def)
next
  case True
  show ?thesis
  proof (cases "getDocs db (users db) [whereEq createdBy B, whereEq status ''approved'']")
    case (Inl e)
    with True assms show ?thesis by (simp add: fetchApprovedUsers_def)
  next
    case (Inr rs)
    with True assms obtain r where "r \<in> set rs" and o: "opt_value opt = acc_id r"
      "opt_email opt = email r" "opt_username opt = username r"
      by (auto simp: fetchApprovedUsers_def)
    with getDocs_owned[OF Inr] o show ?thesis by blast
  qed
qed

lemma fetchStats_owned:
  "da_stats (fetchStats (Some B) db s) = da_stats s \<or>
   da_stats (fetchStats (Some B) db s) =
     \<lparr>totalUsers = length (filter (\<lambda>r. createdBy r = B) (users db)),
      pendingApprovals = length (filter (\<lambda>r. createdBy r = B \<and> status r = ''pending'') (users db)),
      rejectedUsers = length (filter (\<lambda>r. createdBy r = B \<and> status r = ''rejected'') (users db)),
      totalDocuments = length (filter (\<lambda>r. doc_createdBy r = B) (documents db))\<rparr>"
proof (cases "fault db")
  case None
  then show ?thesis
    by (cases "hasEmail (Some B)") (simp_all add: fetchStats_def getDocs_ok whereEq_def)
next
  case (Some e)
  then show ?thesis
    by (cases "hasEmail (Some B)") (simp_all add: fetchStats_def getDocs_fault)
qed

lemma fetchUserDocuments_ok:
  "fault db = None \<Longrightarrow>
     pd_documents (fetchUserDocuments em db sp) =
       filter (\<lambda>d. em \<in> au_email ` set (assignedUsers d)) (documents db)"
  by (simp add: fetchUserDocuments_def getDocs_ok list_ex_iff image_iff) metis

text \<open>
  Against C1 as stated. The portal dashboard reads the whole \<open>documents\<close> collection and keeps the documents
  assigned to its email: issued with the email of the administrator \<open>other@x.com\<close>, it
  lists a document created by \<open>admin@x.com\<close>.
\<close>

theorem portal_documents_cross_tenant:
  "pd_documents (fetchUserDocuments ''other@x.com'' db_two initialPortal) = [doc_shared]
   \<and> doc_createdBy doc_shared = ''admin@x.com'' \<and> createdBy acct_other = ''other@x.com''"
  by (simp add: fetchUserDocuments_def getDocs_def db_two_def doc_shared_def acct_other_def
        initialPortal_def)

text \<open>
  C1, as the code has it. Each list an admin page loads as administrator \<open>B\<close> (accounts,
  documents, clinics, approved accounts for assignment) holds, beyond what the page held
  before the call, only records of the collection whose \<open>createdBy\<close> is \<open>B\<close>, hence
  none created by another administrator \<open>A\<close>; the dashboard's counts, when they change,
  count \<open>B\<close>'s records only. The portal's document list is not owner-scoped: it is the
  documents whose assigned users include the portal email, whoever created them.
\<close>

theorem admin_reads_owner_scoped:
  assumes "A \<noteq> B"
  shows
   "(\<forall>r \<in> set (um_users (fetchUsers (Some B) db su)).
        r \<in> set (um_users su) \<or> (r \<in> set (users db) \<and> createdBy r = B \<and> createdBy r \<noteq> A))
    \<and> (\<forall>r \<in> set (dm_documents (fetchDocuments (Some B) db sd)).
        r \<in> set (dm_documents sd) \<or>
        (r \<in> set (documents db) \<and> doc_createdBy r = B \<and> doc_createdBy r \<noteq> A))
    \<and> (\<forall>r \<in> set (cm_clinics (fetchClinics (Some B) db sc)).
        r \<in> set (cm_clinics sc) \<or>
        (r \<in> set (clinics db) \<and> clinic_createdBy r = B \<and> clinic_createdBy r \<noteq> A))
    \<and> (\<forall>opt \<in> set (dm_approvedUsers (fetchApprovedUsers (Some B) db sd)).
        opt \<in> set (dm_approvedUsers sd) \<or>
        (\<exists>r \<in> set (users db). createdBy r = B \<and> createdBy r \<noteq> A \<and> opt_value opt = acc_id r
            \<and> opt_email opt = email r \<and> opt_username opt = username r))
    \<and> (da_stats (fetchStats (Some B) db s) = da_stats s \<or>
        da_stats (fetchStats (Some B) db s) =
          \<lparr>totalUsers = length (filter (\<lambda>r. createdBy r = B) (users db)),
           pendingApprovals =
             length (filter (\<lambda>r. createdBy r = B \<and> status r = ''pending'') (users db)),
           rejectedUsers =
             length (filter (\<lambda>r. createdBy r = B \<and> status r = ''rejected'') (users db)),
           totalDocuments = length (filter (\<lambda>r. doc_createdBy r = B) (documents db))\<rparr>)
    \<and> (fault db = None \<longrightarrow>
        pd_documents (fetchUserDocuments B db sp) =
          filter (\<lambda>d. B \<in> au_email ` set (assignedUsers d)) (documents db))"
proof -
  have u: "\<forall>r \<in> set (um_users (fetchUsers (Some B) db su)).
        r \<in> set (um_users su) \<or> (r \<in> set (users db) \<and> createdBy r = B \<and> createdBy r \<noteq> A)"
    using fetchUsers_owned assms by blast
  have d: "\<forall>r \<in> set (dm_documents (fetchDocuments (Some B) db sd)).
        r \<in> set (dm_documents sd) \<or>
        (r \<in> set (documents db) \<and> doc_createdBy r = B \<and> doc_createdBy r \<noteq> A)"
    using fetchDocuments_owned assms by blast
  have c: "\<forall>r \<in> set (cm_clinics (fetchClinics (Some B) db sc)).
        r \<in> set (cm_clinics sc) \<or>
        (r \<in> set (clinics db) \<and> clinic_createdBy r = B \<and> clinic_createdBy r \<noteq> A)"
    using fetchClinics_owned assms by blast
  have a: "\<forall>opt \<in> set (dm_approvedUsers (fetchApprovedUsers (Some B) db sd)).
        opt \<in> set (dm_approvedUsers sd) \<or>
        (\<exists>r \<in> set (users db). createdBy r = B \<and> createdBy r \<noteq> A \<and> opt_value opt = acc_id r
            \<and> opt_email opt = email r \<and> opt_username opt = username r)"
  proof
    fix opt assume "opt \<in> set (dm_approvedUsers (fetchApprovedUsers (Some B) db sd))"
    from fetchApprovedUsers_owned[OF this] assms
    show "opt \<in> set (dm_approvedUsers sd) \<or>
        (\<exists>r \<in> set (users db). createdBy r = B \<and> createdBy r \<noteq> A \<and> opt_value opt = acc_id r
            \<and> opt_email opt = email r \<and> opt_username opt = username r)"
      by blast
  qed
  note st = fetchStats_owned[of B db s]
  have p: "fault db = None \<longrightarrow>
        pd_documents (fetchUserDocuments B db sp) =
          filter (\<lambda>d. B \<in> au_email ` set (assignedUsers d)) (documents db)"
    using fetchUserDocuments_ok by blast
  from u d c a st p show ?thesis by (intro conjI)
qed

theorem admin_reads_owner_scoped_witness:
  "''other@x.com'' \<noteq> ''admin@x.com''
   \<and> createdBy acct_other = ''other@x.com''
   \<and> acct_other \<in> set (users db_two)
   \<and> um_users (fetchUsers (Some ''admin@x.com'') db_two um_init) = [acct_demo]
   \<and> acct_other \<notin> set (um_users (fetchUsers (Some ''admin@x.com'') db_two um_init))"
proof -
  have h: "''other@x.com'' \<noteq> ''admin@x.com''"
    by simp
  have e: "um_users um_init = []"
    by (simp add: um_init_def)
  have o: "createdBy acct_other = ''other@x.com''"
    by (simp add: acct_other_def)
  have m: "acct_other \<in> set (users db_two)"
    by (simp add: db_two_def)
  have ev: "um_users (fetchUsers (Some ''admin@x.com'') db_two um_init) = [acct_demo]"
    by (simp add: fetchUsers_def hasEmail_def getDocs_def whereEq_def db_two_def
          acct_demo_def acct_other_def)
  from admin_reads_owner_scoped[OF h, of db_two um_init]
  have "\<forall>r \<in> set (um_users (fetchUsers (Some ''admin@x.com'') db_two um_init)).
         r \<in> set (um_users um_init) \<or> createdBy r \<noteq> ''other@x.com''"
    by blast
  with e o have "acct_other \<notin> set (um_users (fetchUsers (Some ''admin@x.com'') db_two um_init))"
    by auto
  with h o m ev show ?thesis by simp
qed

subsection \<open>Portal login\<close>

lemma at_not_space: "\<not> isSpace CHR ''@''"
  by (simp add: isSpace_def)

lemma trim_no_space:
  assumes "\<not> list_ex isSpace s"
  shows "trim s = s"
proof -
  from assms have 1: "dropWhile isSpace s = s"
    by (cases s) (simp_all)
  from assms have "\<not> list_ex isSpace (rev s)"
    by (simp add: list_ex_iff)
  then have 2: "dropWhile isSpace (rev s) = rev s"
    by (cases "rev s") (simp_all)
  show ?thesis by (simp add: trim_def 1 2)
qed

lemma valid_nonempty: "emailRegex_test s \<Longrightarrow> s \<noteq> []"
  by (auto simp: emailRegex_test_def Let_def)

lemma regex_parts:
  "emailRegex_test s \<longleftrightarrow>
     takeWhile (\<lambda>c. c \<noteq> CHR ''@'') s \<noteq> [] \<and>
     \<not> list_ex isSpace (takeWhile (\<lambda>c. c \<noteq> CHR ''@'') s) \<and>
     dropWhile (\<lambda>c. c \<noteq> CHR ''@'') s \<noteq> [] \<and>
     \<not> list_ex (\<lambda>c. isSpace c \<or> c = CHR ''@'') (tl (dropWhile (\<lambda>c. c \<noteq> CHR ''@'') s)) \<and>
     list_ex (\<lambda>c. c = CHR ''.'') (butlast (tl (tl (dropWhile (\<lambda>c. c \<noteq> CHR ''@'') s))))"
  unfolding emailRegex_test_def Let_def by (rule refl)

lemma valid_no_space:
  assumes "emailRegex_test s"
  shows "\<not> list_ex isSpace s"
proof -
  define l where "l = takeWhile (\<lambda>c. c \<noteq> CHR ''@'') s"
  define r where "r = dropWhile (\<lambda>c. c \<noteq> CHR ''@'') s"
  have s: "s = l @ r"
    unfolding l_def r_def by (rule takeWhile_dropWhile_id[symmetric])
  from assms have l: "\<not> list_ex isSpace l" and rne: "r \<noteq> []"
    and d: "\<not> list_ex (\<lambda>c. isSpace c \<or> c = CHR ''@'') (tl r)"
    unfolding regex_parts l_def r_def by blast+
  from rne have "\<not> hd r \<noteq> CHR ''@''"
    unfolding r_def by (rule hd_dropWhile)
  then have h: "hd r = CHR ''@''" by blast
  from d have t: "\<forall>c \<in> set (tl r). \<not> isSpace c"
    unfolding list_ex_iff by blast
  have "\<forall>c \<in> set r. \<not> isSpace c"
  proof (cases r)
    case Nil
    then show ?thesis by simp
  next
    case (Cons x xs)
    with h t at_not_space show ?thesis by simp
  qed
  moreover from l have "\<forall>c \<in> set l. \<not> isSpace c"
    unfolding list_ex_iff by blast
  ultimately show ?thesis
    unfolding s list_ex_iff by auto
qed

lemma valid_trim: "emailRegex_test s \<Longrightarrow> trim s = s"
  by (rule trim_no_space[OF valid_no_space])

text \<open>
  The test against the shape the pattern describes: a local part, \<open>@\<close>, a domain part,
  a dot and a last part, the three parts non-empty and free of white space and \<open>@\<close>.
\<close>

lemma emailRegex_test_shape:
  "emailRegex_test s \<longleftrightarrow>
     (\<exists>l d t. s = l @ ''@'' @ d @ ''.'' @ t \<and> l \<noteq> [] \<and> d \<noteq> [] \<and> t \<noteq> [] \<and>
        (\<forall>c \<in> set (l @ d @ t). \<not> isSpace c \<and> c \<noteq> CHR ''@''))"
proof
  assume v: "emailRegex_test s"
  define l where "l = takeWhile (\<lambda>c. c \<noteq> CHR ''@'') s"
  define r where "r = dropWhile (\<lambda>c. c \<noteq> CHR ''@'') s"
  have s: "s = l @ r"
    unfolding l_def r_def by (rule takeWhile_dropWhile_id[symmetric])
  from v have lne: "l \<noteq> []" and l: "\<not> list_ex isSpace l" and rne: "r \<noteq> []"
    and d: "\<not> list_ex (\<lambda>c. isSpace c \<or> c = CHR ''@'') (tl r)"
    and dot: "list_ex (\<lambda>c. c = CHR ''.'') (butlast (tl (tl r)))"
    unfolding regex_parts l_def r_def by blast+
  from rne have "\<not> hd r \<noteq> CHR ''@''"
    unfolding r_def by (rule hd_dropWhile)
  with rne have r: "r = CHR ''@'' # tl r"
    by (cases r) simp_all
  have lat: "\<forall>c \<in> set l. c \<noteq> CHR ''@''"
    unfolding l_def by (auto dest: set_takeWhileD)
  from dot have "CHR ''.'' \<in> set (butlast (tl (tl r)))"
    by (simp add: list_ex_iff)
  then obtain p q where pq: "butlast (tl (tl r)) = p @ CHR ''.'' # q"
    by (meson split_list)
  then have ne: "tl (tl r) \<noteq> []" by auto
  then have tt: "tl (tl r) = p @ CHR ''.'' # (q @ [last (tl (tl r))])"
    using pq append_butlast_last_id[OF ne] by simp
  from ne have dne: "tl r \<noteq> []" by auto
  then have dom: "tl r = (hd (tl r) # p) @ ''.'' @ (q @ [last (tl (tl r))])"
    using tt by (cases "tl r") simp_all
  have "s = l @ ''@'' @ (hd (tl r) # p) @ ''.'' @ (q @ [last (tl (tl r))])"
    using s r dom by (metis append_Cons append_Nil)
  moreover have "\<forall>c \<in> set (l @ (hd (tl r) # p) @ (q @ [last (tl (tl r))])).
      \<not> isSpace c \<and> c \<noteq> CHR ''@''"
  proof
    fix c assume "c \<in> set (l @ (hd (tl r) # p) @ (q @ [last (tl (tl r))]))"
    moreover have "set (tl r) = set ((hd (tl r) # p) @ ''.'' @ (q @ [last (tl (tl r))]))"
      using dom by (rule arg_cong)
    ultimately have "c \<in> set l \<or> c \<in> set (tl r)"
      by auto
    with l lat d show "\<not> isSpace c \<and> c \<noteq> CHR ''@''"
      by (auto simp: list_ex_iff)
  qed
  ultimately show "\<exists>l d t. s = l @ ''@'' @ d @ ''.'' @ t \<and> l \<noteq> [] \<and> d \<noteq> [] \<and> t \<noteq> [] \<and>
        (\<forall>c \<in> set (l @ d @ t). \<not> isSpace c \<and> c \<noteq> CHR ''@'')"
    using lne by blast
next
  assume "\<exists>l d t. s = l @ ''@'' @ d @ ''.'' @ t \<and> l \<noteq> [] \<and> d \<noteq> [] \<and> t \<noteq> [] \<and>
        (\<forall>c \<in> set (l @ d @ t). \<not> isSpace c \<and> c \<noteq> CHR ''@'')"
  then obtain l d t where s: "s = l @ CHR ''@'' # d @ CHR ''.'' # t"
    and ne: "l \<noteq> []" "d \<noteq> []" "t \<noteq> []"
    and ok: "\<forall>c \<in> set (l @ d @ t). \<not> isSpace c \<and> c \<noteq> CHR ''@''"
    by auto
  from ok have lat: "\<forall>c \<in> set l. c \<noteq> CHR ''@''" by simp
  have tw: "takeWhile (\<lambda>c. c \<noteq> CHR ''@'') s = l"
    unfolding s using lat by simp
  have dw: "dropWhile (\<lambda>c. c \<noteq> CHR ''@'') s = CHR ''@'' # d @ CHR ''.'' # t"
    unfolding s using lat by simp
  have dotns: "\<not> isSpace CHR ''.''"
    by (simp add: isSpace_def)
  have 1: "\<not> list_ex (\<lambda>c. isSpace c \<or> c = CHR ''@'') (d @ CHR ''.'' # t)"
    using ok dotns by (auto simp: list_ex_iff)
  have "butlast (tl (d @ CHR ''.'' # t)) = tl d @ CHR ''.'' # butlast t"
    using ne by (cases d) (simp_all add: butlast_append)
  then have 2: "list_ex (\<lambda>c. c = CHR ''.'') (butlast (tl (d @ CHR ''.'' # t)))"
    by (simp add: list_ex_iff)
  from ne ok 1 2 show "emailRegex_test s"
    unfolding regex_parts tw dw by (simp add: list_ex_iff)
qed

lemma submit_valid:
  assumes "emailRegex_test (pl_email s)"
  shows "portal_handleSubmit db s b =
     (case getDocs db (users db) [whereEq email (pl_email s)] of
        Inl err \<Rightarrow>
          (s\<lparr>pl_error := (if err_message err \<noteq> [] then err_message err
                            else ''Failed to access user portal''),
             pl_loading := False\<rparr>, b)
      | Inr [] \<Rightarrow>
          (s\<lparr>pl_error := ''Email not found. Please contact your administrator.'',
             pl_loading := False\<rparr>, b)
      | Inr (userData # others) \<Rightarrow>
          if status userData \<noteq> ''approved'' then
            (s\<lparr>pl_error := ''Your account verification is '' @ status userData @
                             ''. Please contact your administrator.'',
               pl_loading := False\<rparr>, b)
          else
            (s\<lparr>pl_error := [], pl_loading := False\<rparr>,
             b\<lparr>sessionStorage := Some (pl_email s), route := ''/user-portal-dashboard''\<rparr>))"
proof -
  have t: "trim (pl_email s) = pl_email s"
    by (rule valid_trim[OF assms])
  have n: "pl_email s \<noteq> []"
    by (rule valid_nonempty[OF assms])
  show ?thesis
  proof (cases "getDocs db (users db) [whereEq email (pl_email s)]")
    case (Inl e)
    then show ?thesis
      using assms t n by (simp add: portal_handleSubmit_def)
  next
    case (Inr rs)
    then show ?thesis
      using assms t n by (cases rs) (simp_all add: portal_handleSubmit_def)
  qed
qed


lemma getDocs_email:
  "fault db = None \<Longrightarrow>
     getDocs db (users db) [whereEq email e] = Inr (filter (\<lambda>x. email x = e) (users db))"
  by (simp add: getDocs_def whereEq_def)


lemma valid_demo: "emailRegex_test ''b@x.com''"
  by (simp add: emailRegex_test_def isSpace_def)



text \<open>
  C9. When the store returns several accounts for a well-formed submitted email, the
  outcome of the submission is fixed by the status of the first of them and by nothing
  else in the store: if that status is \<open>approved\<close> the email is put into the
  session storage and the portal dashboard is opened, otherwise the browser is left as
  it was and the message shown carries that status. The other records returned for the
  email do not occur in the outcome.
\<close>

theorem login_first_record_decides:
  assumes "emailRegex_test (pl_email s)" and "fault db = None"
    and "filter (\<lambda>x. email x = pl_email s) (users db) = a # others"
  shows "portal_handleSubmit db s b =
     (if status a = ''approved''
      then (s\<lparr>pl_error := [], pl_loading := False\<rparr>,
            b\<lparr>sessionStorage := Some (pl_email s), route := ''/user-portal-dashboard''\<rparr>)
      else (s\<lparr>pl_error := ''Your account verification is '' @ status a @
                             ''. Please contact your administrator.'',
              pl_loading := False\<rparr>, b))"
  using assms(2,3) by (simp add: submit_valid[OF assms(1)] getDocs_email)

theorem login_first_record_decides_witness:
  "emailRegex_test (pl_email pl_demo)
   \<and> fault db_dup = None
   \<and> filter (\<lambda>x. email x = pl_email pl_demo) (users db_dup) = acct_demo # [acct_twin]
   \<and> status acct_demo = ''pending'' \<and> status acct_twin = ''approved''
   \<and> status acct_early = ''approved''
   \<and> portal_handleSubmit db_dup pl_demo br_demo =
       (pl_demo\<lparr>pl_error :=
            ''Your account verification is pending. Please contact your administrator.'',
          pl_loading := False\<rparr>, br_demo)
   \<and> fault db_dup_rev = None
   \<and> filter (\<lambda>x. email x = pl_email pl_demo) (users db_dup_rev) = acct_early # [acct_demo]
   \<and> portal_handleSubmit db_dup_rev pl_demo br_demo =
       (pl_demo\<lparr>pl_error := [], pl_loading := False\<rparr>,
        br_demo\<lparr>sessionStorage := Some ''b@x.com'', route := ''/user-portal-dashboard''\<rparr>)"
proof -
  have e: "pl_email pl_demo = ''b@x.com''"
    by (simp add: pl_demo_def)
  have v: "emailRegex_test (pl_email pl_demo)"
    by (simp add: e valid_demo)
  have f: "fault db_dup = None" "fault db_dup_rev = None"
    by (simp_all add: db_dup_def db_dup_rev_def)
  have m1: "filter (\<lambda>x. email x = pl_email pl_demo) (users db_dup) = acct_demo # [acct_twin]"
    unfolding e by (simp add: db_dup_def acct_demo_def acct_twin_def)
  have m2: "filter (\<lambda>x. email x = pl_email pl_demo) (users db_dup_rev) = acct_early # [acct_demo]"
    unfolding e by (simp add: db_dup_rev_def acct_demo_def acct_twin_def acct_early_def)
  have st: "status acct_demo = ''pending''" "status acct_twin = ''approved''"
    "status acct_early = ''approved''"
    by (simp_all add: acct_demo_def acct_twin_def acct_early_def)
  have 1: "portal_handleSubmit db_dup pl_demo br_demo =
       (pl_demo\<lparr>pl_error :=
            ''Your account verification is pending. Please contact your administrator.'',
          pl_loading := False\<rparr>, br_demo)"
    unfolding login_first_record_decides[OF v f(1) m1, of br_demo] st by simp
  have 2: "portal_handleSubmit db_dup_rev pl_demo br_demo =
       (pl_demo\<lparr>pl_error := [], pl_loading := False\<rparr>,
        br_demo\<lparr>sessionStorage := Some ''b@x.com'', route := ''/user-portal-dashboard''\<rparr>)"
    unfolding login_first_record_decides[OF v f(2) m2, of br_demo] st e by simp
  show ?thesis
    apply (intro conjI)
            apply (rule v)
           apply (rule f(1))
          apply (rule m1)
         apply (rule st(1))
        apply (rule st(2))
       apply (rule st(3))
       apply (rule 1)
      apply (rule f(2))
     apply (rule m2)
    apply (rule 2)
    done
qed

subsection \<open>Accounts created from the dashboard form\<close>

lemma form_step_role:
  "fd_role (formData s) \<in> {[], ''admin'', ''user''} \<Longrightarrow>
     fd_role (formData (form_step s e)) \<in> {[], ''admin'', ''user''}"
proof (cases e)
  case (PickRole r)
  then show ?thesis
    by (cases r) (simp_all add: handleSelectChange_def setField_def)
qed (simp_all add: handleInputChange_def handleSelectChange_def handleCancel_def setField_def
       emptyForm_def)

lemma form_step_status:
  "fd_status (formData s) \<in> {[], ''pending'', ''approved'', ''rejected''} \<Longrightarrow>
     fd_status (formData (form_step s e)) \<in> {[], ''pending'', ''approved'', ''rejected''}"
proof (cases e)
  case (PickStatus st)
  then show ?thesis
    by (cases st) (simp_all add: handleSelectChange_def setField_def)
qed (simp_all add: handleInputChange_def handleSelectChange_def handleCancel_def setField_def
       emptyForm_def)

lemma form_run_role:
  "fd_role (formData (foldl form_step initialDashboard evs)) \<in> {[], ''admin'', ''user''}"
proof (induction evs rule: rev_induct)
  case Nil
  show ?case by (simp add: initialDashboard_def emptyForm_def)
next
  case (snoc e evs)
  from form_step_role[OF snoc.IH, of e] show ?case by simp
qed

lemma form_run_status:
  "fd_status (formData (foldl form_step initialDashboard evs))
     \<in> {[], ''pending'', ''approved'', ''rejected''}"
proof (induction evs rule: rev_induct)
  case Nil
  show ?case by (simp add: initialDashboard_def emptyForm_def)
next
  case (snoc e evs)
  from form_step_status[OF snoc.IH, of e] show ?case by simp
qed

lemma submit_users:
  "fault db = None \<Longrightarrow>
     users (snd (dashboard_handleSubmit user newId ts s db)) =
       insort_key acc_id (newAccount user newId ts (formData s)) (users db)"
  by (simp add: dashboard_handleSubmit_def addDoc_def)

text \<open>
  Against C8 as stated. The form submitted with a username and an email typed and nothing picked in the two
  selects stores an account whose status and role are the empty string.
\<close>

theorem add_user_unset_status:
  "status (last (users (snd (dashboard_handleSubmit (Some ''admin@x.com'') ''u7'' 9
       (foldl form_step initialDashboard [TypeUsername ''Bob'', TypeEmail ''b@x.com''])
       db_demo)))) = []
   \<and> role (last (users (snd (dashboard_handleSubmit (Some ''admin@x.com'') ''u7'' 9
       (foldl form_step initialDashboard [TypeUsername ''Bob'', TypeEmail ''b@x.com''])
       db_demo)))) = []
   \<and> [] \<notin> {''pending'', ''approved'', ''rejected''} \<and> [] \<notin> {''admin'', ''user''}"
  by (simp add: dashboard_handleSubmit_def addDoc_def db_demo_def acct_demo_def newAccount_def
        initialDashboard_def emptyForm_def handleInputChange_def setField_def)

text \<open>
  C8, as the code has it. Whatever was done to the form before it is submitted, the
  store gains exactly one account, listed where its identifier falls, and that account
  has a status that is \<open>pending\<close>, \<open>approved\<close>, \<open>rejected\<close> or
  the empty string (nothing picked), a role that is \<open>admin\<close>, \<open>user\<close> or the empty
  string, \<open>createdBy\<close> equal to the administrator's email (or \<open>unknown\<close> when the
  signed-in user has none) and the server's timestamp as \<open>createdAt\<close>.
\<close>

theorem add_user_record:
  assumes "fault db = None"
  shows "users (snd (dashboard_handleSubmit user newId ts
                  (foldl form_step initialDashboard evs) db)) =
           insort_key acc_id
             (newAccount user newId ts (formData (foldl form_step initialDashboard evs)))
             (users db)
    \<and> status (newAccount user newId ts (formData (foldl form_step initialDashboard evs)))
         \<in> {[], ''pending'', ''approved'', ''rejected''}
    \<and> role (newAccount user newId ts (formData (foldl form_step initialDashboard evs)))
         \<in> {[], ''admin'', ''user''}
    \<and> createdBy (newAccount user newId ts (formData (foldl form_step initialDashboard evs)))
         = (case user of None \<Rightarrow> ''unknown'' | Some e \<Rightarrow> if e = [] then ''unknown'' else e)
    \<and> createdAt (newAccount user newId ts (formData (foldl form_step initialDashboard evs)))
         = ts"
proof -
  let ?fd = "formData (foldl form_step initialDashboard evs)"
  have 1: "users (snd (dashboard_handleSubmit user newId ts
                  (foldl form_step initialDashboard evs) db)) =
           insort_key acc_id (newAccount user newId ts ?fd) (users db)"
    by (rule submit_users[OF assms])
  have 2: "status (newAccount user newId ts ?fd) \<in> {[], ''pending'', ''approved'', ''rejected''}"
    using form_run_status[of evs] by (simp add: newAccount_def)
  have 3: "role (newAccount user newId ts ?fd) \<in> {[], ''admin'', ''user''}"
    using form_run_role[of evs] by (simp add: newAccount_def)
  have 4: "createdBy (newAccount user newId ts ?fd)
         = (case user of None \<Rightarrow> ''unknown'' | Some e \<Rightarrow> if e = [] then ''unknown'' else e)"
    by (cases user) (simp_all add: newAccount_def hasEmail_def)
  have 5: "createdAt (newAccount user newId ts ?fd) = ts"
    by (simp add: newAccount_def)
  from 1 2 3 4 5 show ?thesis by (intro conjI)
qed

theorem add_user_record_witness:
  "fault db_demo = None
   \<and> users (snd (dashboard_handleSubmit (Some ''admin@x.com'') ''u7'' 9
        (foldl form_step initialDashboard
           [TypeUsername ''Bob'', TypeEmail ''b@x.com'', PickRole User, PickStatus Pending])
        db_demo)) =
      [acct_demo,
       \<lparr>acc_id = ''u7'', username = ''Bob'', email = ''b@x.com'', role = ''user'',
        status = ''pending'', rejectionReason = None, rejectedAt = None,
        createdBy = ''admin@x.com'', createdAt = 9, images = []\<rparr>]"
proof -
  have f: "fault db_demo = None"
    by (simp add: db_demo_def)
  have u: "users db_demo = [acct_demo]"
    by (simp add: db_demo_def)
  have n: "newAccount (Some ''admin@x.com'') ''u7'' 9
        (formData (foldl form_step initialDashboard
           [TypeUsername ''Bob'', TypeEmail ''b@x.com'', PickRole User, PickStatus Pending])) =
       \<lparr>acc_id = ''u7'', username = ''Bob'', email = ''b@x.com'', role = ''user'',
        status = ''pending'', rejectionReason = None, rejectedAt = None,
        createdBy = ''admin@x.com'', createdAt = 9, images = []\<rparr>"
    by (simp add: newAccount_def hasEmail_def initialDashboard_def emptyForm_def
          handleInputChange_def handleSelectChange_def setField_def)
  from add_user_record[OF f, of "Some ''admin@x.com''" "''u7''" 9
      "[TypeUsername ''Bob'', TypeEmail ''b@x.com'', PickRole User, PickStatus Pending]"]
  have "users (snd (dashboard_handleSubmit (Some ''admin@x.com'') ''u7'' 9
        (foldl form_step initialDashboard
           [TypeUsername ''Bob'', TypeEmail ''b@x.com'', PickRole User, PickStatus Pending])
        db_demo)) =
      insort_key acc_id (newAccount (Some ''admin@x.com'') ''u7'' 9
        (formData (foldl form_step initialDashboard
           [TypeUsername ''Bob'', TypeEmail ''b@x.com'', PickRole User, PickStatus Pending])))
        (users db_demo)"
    by blast
  with f u n show ?thesis by (simp add: acct_demo_def)
qed

subsection \<open>Portal dashboard: uploads and images\<close>

lemma commit_fields:
  "requests (commit d w) = requests w" "store (commit d w) = d"
  "history (commit d w) = history w @ [d]" "browser (commit d w) = browser w"
  by (simp_all add: commit_def)

lemma fetchUserData_selectedFile:
  "pd_selectedFile (fetchUserData e d s) = pd_selectedFile s"
proof (cases "getDocs d (users d) [whereEq (\<lambda>a. Some (email a)) e]")
  case (Inl err)
  then show ?thesis by (simp add: fetchUserData_def)
next
  case (Inr rs)
  then show ?thesis by (cases rs) (simp_all add: fetchUserData_def)
qed

lemma uploadDone_fields:
  "snd (uploadDone s w) = w" "pd_selectedFile (fst (uploadDone s w)) = None"
  by (simp_all add: uploadDone_def)

lemma uploadFailed_selectedFile:
  "pd_selectedFile (uploadFailed m s) = pd_selectedFile s"
  by (simp add: uploadFailed_def)

lemma handleUploadImage_requests:
  "requests (snd (handleUploadImage reply now s w)) = requests w \<or>
   (\<exists>f. pd_selectedFile s = Some f \<and>
        requests (snd (handleUploadImage reply now s w)) = requests w @ [f])"
  by (cases reply)
     (simp_all add: handleUploadImage_def Let_def uploadDone_fields commit_fields
        split: option.split sum.split)

lemma handleUploadImage_selectedFile:
  "pd_selectedFile (fst (handleUploadImage reply now s w)) = pd_selectedFile s \<or>
   pd_selectedFile (fst (handleUploadImage reply now s w)) = None"
  by (cases reply)
     (simp_all add: handleUploadImage_def Let_def uploadDone_fields uploadFailed_selectedFile
        split: option.split sum.split)

lemma handleDeleteImage_requests:
  "requests (snd (handleDeleteImage img c s w)) = requests w"
  by (simp add: handleDeleteImage_def commit_fields split: option.split sum.split)

lemma handleDeleteImage_selectedFile:
  "pd_selectedFile (fst (handleDeleteImage img c s w)) = pd_selectedFile s"
  by (simp add: handleDeleteImage_def fetchUserData_selectedFile split: option.split sum.split)

lemma handleFileSelect_rejects:
  "\<not> passesChecks f \<Longrightarrow> pd_selectedFile (handleFileSelect (Some f) s) = pd_selectedFile s"
  by (auto simp: handleFileSelect_def passesChecks_def)

lemma handleFileSelect_inv:
  assumes "uploadInv before (s, w)"
  shows "uploadInv before (handleFileSelect fo s, w)"
proof (cases fo)
  case None
  with assms show ?thesis by (simp add: handleFileSelect_def)
next
  case (Some f)
  show ?thesis
  proof (cases "passesChecks f")
    case True
    with Some assms show ?thesis
      by (simp add: handleFileSelect_def uploadInv_def passesChecks_def)
  next
    case False
    from handleFileSelect_rejects[OF False, of s] assms Some show ?thesis
      by (simp add: uploadInv_def)
  qed
qed

lemma handleUploadImage_inv:
  assumes "uploadInv before (s, w)"
  shows "uploadInv before (handleUploadImage reply now s w)"
proof -
  let ?r = "handleUploadImage reply now s w"
  from assms have sel: "case pd_selectedFile s of None \<Rightarrow> True | Some f \<Rightarrow> passesChecks f"
    and rq: "list_all (\<lambda>f. f \<in> set before \<or> passesChecks f) (requests w)"
    by (simp_all add: uploadInv_def)
  from handleUploadImage_selectedFile[of reply now s w] sel
  have 1: "case pd_selectedFile (fst ?r) of None \<Rightarrow> True | Some f \<Rightarrow> passesChecks f"
    by auto
  from handleUploadImage_requests[of reply now s w] sel rq
  have 2: "list_all (\<lambda>f. f \<in> set before \<or> passesChecks f) (requests (snd ?r))"
    by auto
  from 1 2 show ?thesis by (simp add: uploadInv_def)
qed

lemma pd_step_inv:
  assumes "uploadInv before sw"
  shows "uploadInv before (pd_step sw e)"
proof (cases sw)
  case (Pair s w)
  show ?thesis
  proof (cases e)
    case (FileSelect fo)
    with Pair assms show ?thesis by (simp add: handleFileSelect_inv)
  next
    case (UploadImage reply now)
    with Pair assms show ?thesis by (simp add: handleUploadImage_inv)
  next
    case (EditImage img)
    with Pair assms show ?thesis by (simp add: uploadInv_def handleEditImage_def)
  next
    case (DeleteImage img c)
    with Pair assms show ?thesis
      by (simp add: uploadInv_def handleDeleteImage_requests handleDeleteImage_selectedFile)
  next
    case CloseSidebar
    with Pair assms show ?thesis by (simp add: uploadInv_def handleCloseSidebar_def)
  qed
qed

lemma pd_run_inv:
  "uploadInv before sw \<Longrightarrow> uploadInv before (pd_run sw evs)"
  unfolding pd_run_def
  by (induction evs arbitrary: sw) (simp_all add: pd_step_inv)

lemma handleUploadImage_full:
  "length (pd_userImages s) \<ge> 3 \<Longrightarrow> pd_editingImage s = None \<Longrightarrow>
     snd (handleUploadImage reply now s w) = w"
  by (simp add: handleUploadImage_def split: option.split)

lemma fetchUserData_images:
  "fault d = None \<Longrightarrow> filter (\<lambda>x. email x = e) (users d) = u # others \<Longrightarrow>
     pd_userImages (fetchUserData (Some e) d s) = images u \<and>
     pd_userData (fetchUserData (Some e) d s) = Some u"
  by (simp add: fetchUserData_def getDocs_def whereEq_def)

lemma world_three_eval:
  "world_three =
     \<lparr>store = \<lparr>users = [acct_demo\<lparr>images := [img_a, img_b, img_c]\<rparr>], documents = [],
                clinics = [], fault = None\<rparr>,
      history = [\<lparr>users = [acct_demo\<lparr>images := [img_a, img_b, img_c]\<rparr>], documents = [],
                  clinics = [], fault = None\<rparr>],
      requests = [png_small],
      browser = \<lparr>sessionStorage = Some ''b@x.com'', route = ''/user-portal-dashboard''\<rparr>\<rparr>"
  by (simp add: world_three_def handleUploadImage_def tab_two_def loaded_def initialPortal_def
        world_of_def Let_def updateDoc_def imagesPatch_def arrayUnion_def uploadDone_def
        commit_def host_ok_def png_small_def img_a_def img_b_def img_c_def acct_demo_def)

text \<open>
  Against C4 as stated. The account holds three images in the store, the third added
  from another tab; this tab still lists the two it loaded, so its upload on the
  non-replace path is posted to the image host and the account ends with four images.
\<close>

theorem stale_list_fourth_upload:
  "map images (users (store world_three)) = [[img_a, img_b, img_c]]
   \<and> pd_userImages tab_stale = [img_a, img_b]
   \<and> pd_editingImage tab_stale = None
   \<and> requests (snd (handleUploadImage (Uploaded host_d) ''2025-01-04T00:00:00.000Z''
         tab_stale world_three)) = requests world_three @ [png_d]
   \<and> map images (users (store (snd (handleUploadImage (Uploaded host_d)
         ''2025-01-04T00:00:00.000Z'' tab_stale world_three)))) =
       [[img_a, img_b, img_c, img_d]]"
  unfolding world_three_eval
  by (simp add: handleUploadImage_def tab_stale_def loaded_def initialPortal_def
        Let_def updateDoc_def imagesPatch_def arrayUnion_def uploadDone_def
        commit_def host_d_def png_d_def img_a_def img_b_def img_c_def img_d_def acct_demo_def)

text \<open>
  C4, as the code has it. A file that is larger than 5 MB or whose type does not begin
  with \<open>image/\<close> is not taken as the selected file, and no file that fails these
  checks is ever posted to the image host: from a page opened with no file selected,
  whatever the controls are made to do, every request made since is for a file that
  passed both checks. An upload attempted while the list of images that the page holds
  has three or more entries and no image is being replaced changes nothing outside the
  page: no request, no write. That list is the account's array as \<open>fetchUserData\<close>
  last loaded it, not the array in the store at the time of the attempt.
\<close>

theorem upload_preconditions:
  "((\<not> startsWith (file_type f) ''image/'' \<or> file_size f > 5 * 1024 * 1024)
       \<longrightarrow> pd_selectedFile (handleFileSelect (Some f) s) = pd_selectedFile s)
   \<and> (pd_selectedFile s0 = None
       \<and> g \<in> set (requests (snd (pd_run (s0, w0) evs))) \<and> g \<notin> set (requests w0)
       \<longrightarrow> startsWith (file_type g) ''image/'' \<and> file_size g \<le> 5 * 1024 * 1024)
   \<and> (length (pd_userImages s1) \<ge> 3 \<and> pd_editingImage s1 = None
       \<longrightarrow> snd (handleUploadImage reply now s1 w) = w)
   \<and> (fault d = None \<and> filter (\<lambda>x. email x = e) (users d) = u # others
       \<longrightarrow> pd_userImages (fetchUserData (Some e) d s2) = images u)"
proof (intro conjI impI)
  assume "\<not> startsWith (file_type f) ''image/'' \<or> file_size f > 5 * 1024 * 1024"
  then have "\<not> passesChecks f" by (auto simp: passesChecks_def)
  then show "pd_selectedFile (handleFileSelect (Some f) s) = pd_selectedFile s"
    by (rule handleFileSelect_rejects)
next
  assume h: "pd_selectedFile s0 = None
       \<and> g \<in> set (requests (snd (pd_run (s0, w0) evs))) \<and> g \<notin> set (requests w0)"
  then have "uploadInv (requests w0) (s0, w0)"
    by (simp add: uploadInv_def list_all_iff)
  then have "uploadInv (requests w0) (pd_run (s0, w0) evs)"
    by (rule pd_run_inv)
  with h have "passesChecks g"
    by (auto simp: uploadInv_def list_all_iff)
  then show "startsWith (file_type g) ''image/''" and "file_size g \<le> 5 * 1024 * 1024"
    by (simp_all add: passesChecks_def)
next
  assume "length (pd_userImages s1) \<ge> 3 \<and> pd_editingImage s1 = None"
  then show "snd (handleUploadImage reply now s1 w) = w"
    by (simp add: handleUploadImage_full)
next
  assume "fault d = None \<and> filter (\<lambda>x. email x = e) (users d) = u # others"
  then show "pd_userImages (fetchUserData (Some e) d s2) = images u"
    by (simp add: fetchUserData_images)
qed

theorem upload_preconditions_witness:
  "file_size png_big > 5 * 1024 * 1024
   \<and> pd_selectedFile (handleFileSelect (Some png_big) initialPortal) = None
   \<and> requests (snd (pd_run (initialPortal, world_of acct_demo)
                  [FileSelect (Some png_big), FileSelect (Some png_small),
                   UploadImage (Uploaded host_ok) ''2025-01-03T00:00:00.000Z''])) = [png_small]
   \<and> startsWith (file_type png_small) ''image/'' \<and> file_size png_small \<le> 5 * 1024 * 1024
   \<and> length (pd_userImages ((loaded (acct_demo\<lparr>images := [img_a, img_b, img_c]\<rparr>))
                \<lparr>pd_selectedFile := Some png_small\<rparr>)) \<ge> 3
   \<and> snd (handleUploadImage (Uploaded host_ok) ''2025-01-03T00:00:00.000Z''
          ((loaded (acct_demo\<lparr>images := [img_a, img_b, img_c]\<rparr>))
             \<lparr>pd_selectedFile := Some png_small\<rparr>)
          (world_of (acct_demo\<lparr>images := [img_a, img_b, img_c]\<rparr>))) =
        world_of (acct_demo\<lparr>images := [img_a, img_b, img_c]\<rparr>)
   \<and> pd_userImages (fetchUserData (Some ''b@x.com'')
          (store (world_of (acct_demo\<lparr>images := [img_a, img_b, img_c]\<rparr>))) initialPortal) =
        [img_a, img_b, img_c]"
proof -
  let ?a3 = "acct_demo\<lparr>images := [img_a, img_b, img_c]\<rparr>"
  let ?s3 = "(loaded ?a3)\<lparr>pd_selectedFile := Some png_small\<rparr>"
  let ?evs = "[FileSelect (Some png_big), FileSelect (Some png_small),
                   UploadImage (Uploaded host_ok) ''2025-01-03T00:00:00.000Z'']"
  have big: "file_size png_big > 5 * 1024 * 1024"
    by (simp add: png_big_def)
  have a1: "\<not> startsWith (file_type png_big) ''image/'' \<or> file_size png_big > 5 * 1024 * 1024"
    using big by simp
  have run: "requests (snd (pd_run (initialPortal, world_of acct_demo) ?evs)) = [png_small]"
    by (simp add: pd_run_def handleFileSelect_def handleUploadImage_def initialPortal_def
          world_of_def png_big_def png_small_def startsWith_def uploadFailed_def)
  have a2: "pd_selectedFile initialPortal = None
      \<and> png_small \<in> set (requests (snd (pd_run (initialPortal, world_of acct_demo) ?evs)))
      \<and> png_small \<notin> set (requests (world_of acct_demo))"
    unfolding run by (simp add: initialPortal_def world_of_def)
  have a3: "length (pd_userImages ?s3) \<ge> 3 \<and> pd_editingImage ?s3 = None"
    by (simp add: loaded_def initialPortal_def)
  have a4: "fault (store (world_of ?a3)) = None
      \<and> filter (\<lambda>x. email x = ''b@x.com'') (users (store (world_of ?a3))) = ?a3 # []"
    by (simp add: world_of_def acct_demo_def)
  note t = upload_preconditions[where f = png_big and s = initialPortal
      and ?s0.0 = initialPortal and g = png_small and ?w0.0 = "world_of acct_demo"
      and evs = ?evs and ?s1.0 = ?s3 and reply = "Uploaded host_ok"
      and now = "''2025-01-03T00:00:00.000Z''" and w = "world_of ?a3"
      and d = "store (world_of ?a3)" and e = "''b@x.com''" and u = ?a3 and others = "[]"
      and ?s2.0 = initialPortal]
  from t a1 have c1: "pd_selectedFile (handleFileSelect (Some png_big) initialPortal) =
      pd_selectedFile initialPortal"
    by blast
  from t a2 have c2: "startsWith (file_type png_small) ''image/''
      \<and> file_size png_small \<le> 5 * 1024 * 1024"
    by blast
  from t a3 have c3: "snd (handleUploadImage (Uploaded host_ok) ''2025-01-03T00:00:00.000Z''
          ?s3 (world_of ?a3)) = world_of ?a3"
    by blast
  from t a4 have c4: "pd_userImages (fetchUserData (Some ''b@x.com'')
          (store (world_of ?a3)) initialPortal) = images ?a3"
    by blast
  have i: "pd_selectedFile initialPortal = None"
    by (simp add: initialPortal_def)
  from big c1 i run c2 a3 c3 c4 show ?thesis by simp
qed

lemma updateDoc_at:
  assumes "fault d = None" and "users d = before @ a # after"
    and "\<forall>x \<in> set (before @ after). acc_id x \<noteq> acc_id a"
  shows "updateDoc d (acc_id a) p = Inr (d\<lparr>users := before @ p a # after\<rparr>)"
proof -
  have ex: "list_ex (\<lambda>x. acc_id x = acc_id a) (users d)"
    by (simp add: assms(2) list_ex_iff)
  have b: "map (\<lambda>x. if acc_id x = acc_id a then p x else x) before = before"
    using assms(3) by (intro map_idI) simp
  have c: "map (\<lambda>x. if acc_id x = acc_id a then p x else x) after = after"
    using assms(3) by (intro map_idI) simp
  have "map (\<lambda>x. if acc_id x = acc_id a then p x else x) (users d) = before @ p a # after"
    by (simp add: assms(2) b c)
  with ex assms(1) show ?thesis
    by (simp add: updateDoc_def)
qed

lemma arrayRemove_absent: "x \<notin> set xs \<Longrightarrow> arrayRemove x xs = xs"
  by (induction xs) (auto simp: arrayRemove_def)

lemma arrayRemove_once:
  "x \<notin> set xs \<Longrightarrow> x \<notin> set ys \<Longrightarrow> arrayRemove x (xs @ x # ys) = xs @ ys"
  using arrayRemove_absent[of x xs] arrayRemove_absent[of x ys]
  by (simp add: arrayRemove_def)

lemma handleDeleteImage_store:
  assumes "pd_userData s = Some u" and "fault (store w) = None"
    and "users (store w) = before @ a # after" and "acc_id a = acc_id u"
    and "\<forall>x \<in> set (before @ after). acc_id x \<noteq> acc_id u"
  shows "store (snd (handleDeleteImage img True s w)) =
           (store w)\<lparr>users := before @ a\<lparr>images := arrayRemove img (images a)\<rparr> # after\<rparr>"
proof -
  from assms(4,5) have uq: "\<forall>x \<in> set (before @ after). acc_id x \<noteq> acc_id a"
    by simp
  have "updateDoc (store w) (acc_id u) (imagesPatch (arrayRemove img)) =
      Inr ((store w)\<lparr>users := before @ imagesPatch (arrayRemove img) a # after\<rparr>)"
    using updateDoc_at[OF assms(2,3) uq] assms(4) by simp
  then show ?thesis
    by (simp add: handleDeleteImage_def assms(1) commit_fields imagesPatch_def)
qed

text \<open>
  Against C6 as stated. An account whose array holds the same entry twice: deleting that entry leaves only
  the entry between the two.
\<close>

theorem delete_image_takes_equal_entries:
  "images (acct_demo\<lparr>images := [img_a, img_b, img_a]\<rparr>) = [img_a, img_b, img_a]
   \<and> map images (users (store (snd (handleDeleteImage img_a True
          (loaded (acct_demo\<lparr>images := [img_a, img_b, img_a]\<rparr>))
          (world_of (acct_demo\<lparr>images := [img_a, img_b, img_a]\<rparr>)))))) = [[img_b]]"
  by (simp add: handleDeleteImage_def loaded_def world_of_def initialPortal_def updateDoc_def
        commit_def imagesPatch_def arrayRemove_def acct_demo_def img_a_def img_b_def)

text \<open>
  C6, as the code has it. Deleting an image, once confirmed, rewrites the account's
  array without the entries that equal the given image on every field: all of them are
  removed, every other entry stays in its place, and every other account is untouched.
  When the array holds the image once, exactly that entry is removed. A deletion that
  is not confirmed changes nothing.
\<close>

theorem delete_image_removes_equal_entries:
  assumes "pd_userData s = Some u" and "fault (store w) = None"
    and "users (store w) = before @ a # after" and "acc_id a = acc_id u"
    and "\<forall>x \<in> set (before @ after). acc_id x \<noteq> acc_id u"
  shows "store (snd (handleDeleteImage img True s w)) =
           (store w)\<lparr>users := before @ a\<lparr>images := filter (\<lambda>y. y \<noteq> img) (images a)\<rparr> # after\<rparr>
    \<and> (images a = xs @ img # ys \<and> img \<notin> set xs \<and> img \<notin> set ys \<longrightarrow>
         store (snd (handleDeleteImage img True s w)) =
           (store w)\<lparr>users := before @ a\<lparr>images := xs @ ys\<rparr> # after\<rparr>)
    \<and> handleDeleteImage img False s w = (s, w)"
proof (intro conjI impI)
  show 1: "store (snd (handleDeleteImage img True s w)) =
           (store w)\<lparr>users := before @ a\<lparr>images := filter (\<lambda>y. y \<noteq> img) (images a)\<rparr> # after\<rparr>"
    using handleDeleteImage_store[OF assms, of img] by (simp add: arrayRemove_def)
  show "handleDeleteImage img False s w = (s, w)"
    by (simp add: handleDeleteImage_def)
  assume "images a = xs @ img # ys \<and> img \<notin> set xs \<and> img \<notin> set ys"
  then have "arrayRemove img (images a) = xs @ ys"
    by (simp add: arrayRemove_once)
  then show "store (snd (handleDeleteImage img True s w)) =
           (store w)\<lparr>users := before @ a\<lparr>images := xs @ ys\<rparr> # after\<rparr>"
    using handleDeleteImage_store[OF assms, of img] by simp
qed

theorem delete_image_removes_equal_entries_witness:
  "pd_userData (loaded (acct_demo\<lparr>images := [img_a, img_b]\<rparr>)) =
      Some (acct_demo\<lparr>images := [img_a, img_b]\<rparr>)
   \<and> fault (store (world_of (acct_demo\<lparr>images := [img_a, img_b]\<rparr>))) = None
   \<and> users (store (world_of (acct_demo\<lparr>images := [img_a, img_b]\<rparr>))) =
        [] @ acct_demo\<lparr>images := [img_a, img_b]\<rparr> # []
   \<and> images (acct_demo\<lparr>images := [img_a, img_b]\<rparr>) = [] @ img_a # [img_b]
   \<and> img_a \<notin> set [img_b]
   \<and> users (store (snd (handleDeleteImage img_a True
          (loaded (acct_demo\<lparr>images := [img_a, img_b]\<rparr>))
          (world_of (acct_demo\<lparr>images := [img_a, img_b]\<rparr>))))) =
        [acct_demo\<lparr>images := [img_b]\<rparr>]"
proof -
  let ?a = "acct_demo\<lparr>images := [img_a, img_b]\<rparr>"
  have h1: "pd_userData (loaded ?a) = Some ?a"
    by (simp add: loaded_def)
  have h2: "fault (store (world_of ?a)) = None"
    by (simp add: world_of_def)
  have h3: "users (store (world_of ?a)) = [] @ ?a # []"
    by (simp add: world_of_def)
  have h4: "\<forall>x \<in> set ([] @ []). acc_id x \<noteq> acc_id ?a"
    by simp
  have h5: "images ?a = [] @ img_a # [img_b] \<and> img_a \<notin> set [] \<and> img_a \<notin> set [img_b]"
    by (simp add: img_a_def img_b_def)
  from delete_image_removes_equal_entries[OF h1 h2 h3 refl h4, of img_a "[]" "[img_b]"] h5
  have "store (snd (handleDeleteImage img_a True (loaded ?a) (world_of ?a))) =
           (store (world_of ?a))\<lparr>users := [] @ ?a\<lparr>images := [] @ [img_b]\<rparr> # []\<rparr>"
    by blast
  with h1 h2 h3 h5 show ?thesis by simp
qed

lemma imagesPatch_id: "acc_id (imagesPatch g a) = acc_id a"
  by (simp add: imagesPatch_def)

lemma handleUploadImage_replace:
  assumes sel: "pd_selectedFile s = Some f" and ed: "pd_editingImage s = Some old"
    and ud: "pd_userData s = Some u" and fl: "fault (store w) = None"
    and dec: "users (store w) = before @ a # after" and ida: "acc_id a = acc_id u"
    and uq: "\<forall>x \<in> set (before @ after). acc_id x \<noteq> acc_id u"
  shows "snd (handleUploadImage (Uploaded r) now s w) =
     w\<lparr>requests := requests w @ [f],
       store := (store w)\<lparr>users := before @
          a\<lparr>images := arrayUnion
               \<lparr>url = ur_url r, display_url = ur_display_url r, thumb_url = ur_thumb_url r,
                medium_url = ur_medium_url r, delete_url = ur_delete_url r,
                image_id = ur_image_id r, uploadedAt = now, filename = file_name f\<rparr>
               (arrayRemove old (images a))\<rparr> # after\<rparr>,
       history := history w @
         [(store w)\<lparr>users := before @ a\<lparr>images := arrayRemove old (images a)\<rparr> # after\<rparr>,
          (store w)\<lparr>users := before @
             a\<lparr>images := arrayUnion
               \<lparr>url = ur_url r, display_url = ur_display_url r, thumb_url = ur_thumb_url r,
                medium_url = ur_medium_url r, delete_url = ur_delete_url r,
                image_id = ur_image_id r, uploadedAt = now, filename = file_name f\<rparr>
               (arrayRemove old (images a))\<rparr> # after\<rparr>]\<rparr>"
proof -
  let ?new = "\<lparr>url = ur_url r, display_url = ur_display_url r, thumb_url = ur_thumb_url r,
                medium_url = ur_medium_url r, delete_url = ur_delete_url r,
                image_id = ur_image_id r, uploadedAt = now, filename = file_name f\<rparr>"
  let ?a1 = "imagesPatch (arrayRemove old) a"
  let ?d1 = "(store w)\<lparr>users := before @ ?a1 # after\<rparr>"
  from ida uq have uqa: "\<forall>x \<in> set (before @ after). acc_id x \<noteq> acc_id a"
    by simp
  have w1: "updateDoc (store w) (acc_id u) (imagesPatch (arrayRemove old)) = Inr ?d1"
    using updateDoc_at[OF fl dec uqa] ida by simp
  have f1: "fault ?d1 = None" using fl by simp
  have u1: "users ?d1 = before @ ?a1 # after" by simp
  have uq1: "\<forall>x \<in> set (before @ after). acc_id x \<noteq> acc_id ?a1"
    using uqa by (simp add: imagesPatch_id)
  have w2: "updateDoc ?d1 (acc_id u) (imagesPatch (arrayUnion ?new)) =
      Inr (?d1\<lparr>users := before @ imagesPatch (arrayUnion ?new) ?a1 # after\<rparr>)"
    using updateDoc_at[OF f1 u1 uq1] ida by (simp add: imagesPatch_id)
  have "snd (handleUploadImage (Uploaded r) now s w) =
      commit (?d1\<lparr>users := before @ imagesPatch (arrayUnion ?new) ?a1 # after\<rparr>)
        (commit ?d1 (w\<lparr>requests := requests w @ [f]\<rparr>))"
    by (simp add: handleUploadImage_def sel ed ud Let_def w1 w2 uploadDone_fields)
  then show ?thesis
    by (simp add: commit_def imagesPatch_def)
qed

text \<open>
  C7. Replacing an image, after the host has stored the new file, writes to the account
  twice: the store first goes to a state in which the account's array lacks the old
  entry, one image fewer than before, and only then to the state in which the new
  entry is added. Both states are recorded in the history of the store, in this order,
  and nothing else is written.
\<close>

theorem replace_image_two_writes:
  assumes "pd_selectedFile s = Some f" and "pd_editingImage s = Some old"
    and "pd_userData s = Some u" and "fault (store w) = None"
    and "users (store w) = before @ a # after" and "acc_id a = acc_id u"
    and "\<forall>x \<in> set (before @ after). acc_id x \<noteq> acc_id u"
    and "images a = xs @ old # ys" and "old \<notin> set xs" and "old \<notin> set ys"
  shows "history (snd (handleUploadImage (Uploaded r) now s w)) =
     history w @
       [(store w)\<lparr>users := before @ a\<lparr>images := xs @ ys\<rparr> # after\<rparr>,
        (store w)\<lparr>users := before @
           a\<lparr>images := arrayUnion
               \<lparr>url = ur_url r, display_url = ur_display_url r, thumb_url = ur_thumb_url r,
                medium_url = ur_medium_url r, delete_url = ur_delete_url r,
                image_id = ur_image_id r, uploadedAt = now, filename = file_name f\<rparr>
               (xs @ ys)\<rparr> # after\<rparr>]
    \<and> store (snd (handleUploadImage (Uploaded r) now s w)) =
        (store w)\<lparr>users := before @
           a\<lparr>images := arrayUnion
               \<lparr>url = ur_url r, display_url = ur_display_url r, thumb_url = ur_thumb_url r,
                medium_url = ur_medium_url r, delete_url = ur_delete_url r,
                image_id = ur_image_id r, uploadedAt = now, filename = file_name f\<rparr>
               (xs @ ys)\<rparr> # after\<rparr>
    \<and> length (xs @ ys) + 1 = length (images a)"
proof -
  have r: "arrayRemove old (images a) = xs @ ys"
    using assms(8-10) by (simp add: arrayRemove_once)
  have l: "length (xs @ ys) + 1 = length (images a)"
    using assms(8) by simp
  show ?thesis
    unfolding handleUploadImage_replace[OF assms(1-7)] r using l by simp
qed

theorem replace_image_two_writes_witness:
  "map (\<lambda>d. map images (users d))
     (history (snd (handleUploadImage (Uploaded host_ok) ''2025-01-03T00:00:00.000Z''
        ((loaded (acct_demo\<lparr>images := [img_a, img_b]\<rparr>))
           \<lparr>pd_selectedFile := Some png_small, pd_editingImage := Some img_a\<rparr>)
        (world_of (acct_demo\<lparr>images := [img_a, img_b]\<rparr>))))) =
   [[[img_b]], [[img_b, img_c]]]"
proof -
  let ?a = "acct_demo\<lparr>images := [img_a, img_b]\<rparr>"
  let ?s = "(loaded ?a)\<lparr>pd_selectedFile := Some png_small, pd_editingImage := Some img_a\<rparr>"
  have h1: "pd_selectedFile ?s = Some png_small" by simp
  have h2: "pd_editingImage ?s = Some img_a" by simp
  have h3: "pd_userData ?s = Some ?a" by (simp add: loaded_def)
  have h4: "fault (store (world_of ?a)) = None" by (simp add: world_of_def)
  have h5: "users (store (world_of ?a)) = [] @ ?a # []" by (simp add: world_of_def)
  have h7: "\<forall>x \<in> set ([] @ []). acc_id x \<noteq> acc_id ?a" by simp
  have h8: "images ?a = [] @ img_a # [img_b]" by simp
  have h9: "img_a \<notin> set []" by simp
  have h10: "img_a \<notin> set [img_b]" by (simp add: img_a_def img_b_def)
  have n: "\<lparr>url = ur_url host_ok, display_url = ur_display_url host_ok,
            thumb_url = ur_thumb_url host_ok, medium_url = ur_medium_url host_ok,
            delete_url = ur_delete_url host_ok, image_id = ur_image_id host_ok,
            uploadedAt = ''2025-01-03T00:00:00.000Z'', filename = file_name png_small\<rparr> = img_c"
    by (simp add: host_ok_def png_small_def img_c_def)
  have u: "arrayUnion img_c ([] @ [img_b]) = [img_b, img_c]"
    by (simp add: arrayUnion_def img_b_def img_c_def)
  have hw: "history (world_of ?a) = []" by (simp add: world_of_def)
  from replace_image_two_writes[where r = host_ok and now = "''2025-01-03T00:00:00.000Z''",
      OF h1 h2 h3 h4 h5 refl h7 h8 h9 h10]
  have "history (snd (handleUploadImage (Uploaded host_ok) ''2025-01-03T00:00:00.000Z''
        ?s (world_of ?a))) =
     history (world_of ?a) @
       [(store (world_of ?a))\<lparr>users := [] @ ?a\<lparr>images := [] @ [img_b]\<rparr> # []\<rparr>,
        (store (world_of ?a))\<lparr>users := [] @
           ?a\<lparr>images := arrayUnion img_c ([] @ [img_b])\<rparr> # []\<rparr>]"
    unfolding n by blast
  then show ?thesis
    unfolding u hw by simp
qed

end
